theory Spec2Isabelle
  imports Complex_Main
begin

section \<open>Python values, errors and string primitives\<close>

text \<open>
  The module \<^verbatim>\<open>src/hrv/data.py\<close> is modelled function by function. Every
  \<^verbatim>\<open>raise\<close>, failed \<^verbatim>\<open>assert\<close>, failed subscript and failed conversion
  of the Python code is a value \<open>Inl e\<close> of the result type \<open>py_error + 'a\<close>.
  Strings are ASCII strings (one \<open>char\<close> per code point).
\<close>

datatype py_error =
    ValueError string
  | KeyError string
  | IndexError
  | AssertionError
  | UnboundLocalError string
  | OverflowError

definition bind :: "py_error + 'a \<Rightarrow> ('a \<Rightarrow> py_error + 'b) \<Rightarrow> py_error + 'b" where
  "bind r f = (case r of Inl e \<Rightarrow> Inl e | Inr x \<Rightarrow> f x)"

text \<open>\<^verbatim>\<open>[f(x) for x in xs]\<close> with a fallible \<open>f\<close>: the first failure aborts.\<close>

fun map_err :: "('a \<Rightarrow> py_error + 'b) \<Rightarrow> 'a list \<Rightarrow> py_error + 'b list" where
  "map_err f [] = Inr []"
| "map_err f (x # xs) =
     (case f x of
        Inl e \<Rightarrow> Inl e
      | Inr y \<Rightarrow> (case map_err f xs of Inl e \<Rightarrow> Inl e | Inr ys \<Rightarrow> Inr (y # ys)))"

definition is_space :: "char \<Rightarrow> bool" where
  \<comment> \<open>the ASCII characters for which \<^verbatim>\<open>str.isspace\<close> holds\<close>
  "is_space c = (let n = (of_char c :: nat) in (9 \<le> n \<and> n \<le> 13) \<or> (28 \<le> n \<and> n \<le> 32))"

definition is_digit :: "char \<Rightarrow> bool" where
  "is_digit c = (let n = (of_char c :: nat) in 48 \<le> n \<and> n \<le> 57)"

definition digit_val :: "char \<Rightarrow> int" where
  "digit_val c = int (of_char c) - 48"

definition lower_char :: "char \<Rightarrow> char" where
  "lower_char c =
     (let n = (of_char c :: nat) in if 65 \<le> n \<and> n \<le> 90 then char_of (n + 32) else c)"

definition lower :: "string \<Rightarrow> string" where
  \<comment> \<open>\<^verbatim>\<open>str.lower\<close>\<close>
  "lower s = map lower_char s"

definition strip :: "string \<Rightarrow> string" where
  \<comment> \<open>\<^verbatim>\<open>str.strip()\<close>\<close>
  "strip s = rev (dropWhile is_space (rev (dropWhile is_space s)))"

fun split :: "char \<Rightarrow> string \<Rightarrow> string list" where
  \<comment> \<open>\<^verbatim>\<open>s.split(c)\<close> for a one-character separator\<close>
  "split c [] = [[]]"
| "split c (x # xs) =
     (if x = c then [] # split c xs
      else (case split c xs of [] \<Rightarrow> [[x]] | w # ws \<Rightarrow> (x # w) # ws))"

definition startswith :: "string \<Rightarrow> string \<Rightarrow> bool" where
  \<comment> \<open>\<^verbatim>\<open>s.startswith(p)\<close>\<close>
  "startswith s p = (take (length p) s = p)"

subsection \<open>\<^verbatim>\<open>int(str)\<close>\<close>

text \<open>
  Base-10 \<^verbatim>\<open>int\<close> of a string: surrounding whitespace is dropped, one sign is
  allowed, then digits follow, where single underscores may separate digits.
  Anything else raises \<^verbatim>\<open>ValueError\<close>. The whitespace \<^verbatim>\<open>int\<close> drops from an
  ASCII string is tab, line feed, vertical tab, form feed, carriage return and
  space; the separators \<^verbatim>\<open>0x1C\<close> to \<^verbatim>\<open>0x1F\<close>, which \<^verbatim>\<open>str.strip\<close> removes, are not
  among them.
\<close>

definition is_int_space :: "char \<Rightarrow> bool" where
  "is_int_space c = (let n = (of_char c :: nat) in (9 \<le> n \<and> n \<le> 13) \<or> n = 32)"

fun int_body :: "string \<Rightarrow> bool" where
  "int_body [] = False"
| "int_body [c] = is_digit c"
| "int_body (c # d # r) =
     (is_digit c \<and> (if d = CHR ''_'' then int_body r else int_body (d # r)))"

definition digits_val :: "string \<Rightarrow> int" where
  "digits_val ds = foldl (\<lambda>acc c. 10 * acc + digit_val c) 0 ds"

definition py_int :: "string \<Rightarrow> py_error + int" where
  "py_int s =
     (let t = rev (dropWhile is_int_space (rev (dropWhile is_int_space s)));
          neg = (t \<noteq> [] \<and> hd t = CHR ''-'');
          body = (if t \<noteq> [] \<and> (hd t = CHR ''-'' \<or> hd t = CHR ''+'') then tl t else t)
      in if int_body body
         then Inr ((if neg then - 1 else 1) * digits_val (filter (\<lambda>c. c \<noteq> CHR ''_'') body))
         else Inl (ValueError ''invalid literal for int() with base 10''))"

section \<open>HRMonitorApp statistics: duration\<close>

text \<open>
  \<^verbatim>\<open>
  def _hrmonitorapp_duration_to_seconds(duration: str) -> int:
      assert len(duration) == 8 and len(duration.split(":")) == 3
      hh, mm, ss = [int(x) for x in duration.split(":")]
      seconds = hh * 3600 + mm * 60 + ss
      return seconds
  \<close>
\<close>

definition hrmonitorapp_duration_to_seconds :: "string \<Rightarrow> py_error + int" where
  "hrmonitorapp_duration_to_seconds duration =
     (if \<not> (length duration = 8 \<and> length (split (CHR '':'') duration) = 3)
      then Inl AssertionError
      else bind (map_err py_int (split (CHR '':'') duration)) (\<lambda>xs.
        (case xs of
           [hh, mm, ss] \<Rightarrow> Inr (hh * 3600 + mm * 60 + ss)
         | _ \<Rightarrow> Inl (ValueError ''not enough values to unpack''))))"

section \<open>Values, dictionaries and subscripts\<close>

text \<open>
  The values that occur in decoded messages and in the result mappings. The type
  \<open>'f\<close> stands for IEEE doubles, whose arithmetic is not part of this
  development: it enters only through the operations of \<open>numpy\<close> below.
  \<open>VDatetime n\<close> is the naive \<^verbatim>\<open>datetime.datetime\<close> that lies \<open>n\<close>
  seconds after 0001-01-01T00:00:00; \<open>VNaN\<close> is the marker pandas puts where a
  row has no value.
\<close>

datatype 'f py_value =
    VNone
  | VInt int
  | VFloat 'f
  | VNaN
  | VStr string
  | VDatetime int
  | VTuple "'f py_value list"

text \<open>
  An array of numpy: its shape, and its elements in row-major order.
\<close>

datatype 'a ndarray = NDArray (arr_shape: "nat list") (arr_elements: "'a list")

type_synonym 'v dict = "string \<rightharpoonup> 'v"

definition dict_of :: "(string \<times> 'v) list \<Rightarrow> 'v dict" where
  \<comment> \<open>\<^verbatim>\<open>dict(pairs)\<close>: a later pair replaces an earlier one with the same key\<close>
  "dict_of pairs = map_of (rev pairs)"

definition getitem :: "'v dict \<Rightarrow> string \<Rightarrow> py_error + 'v" where
  \<comment> \<open>\<^verbatim>\<open>d[k]\<close>\<close>
  "getitem d k = (case d k of None \<Rightarrow> Inl (KeyError k) | Some v \<Rightarrow> Inr v)"

definition item :: "'a list \<Rightarrow> nat \<Rightarrow> py_error + 'a" where
  \<comment> \<open>\<^verbatim>\<open>xs[i]\<close> for a literal \<open>i \<ge> 0\<close>\<close>
  "item xs i = (if i < length xs then Inr (xs ! i) else Inl IndexError)"

definition last_item :: "'a list \<Rightarrow> py_error + 'a" where
  \<comment> \<open>\<^verbatim>\<open>xs[-1]\<close>\<close>
  "last_item xs = (if xs = [] then Inl IndexError else Inr (last xs))"

text \<open>
  The operations of numpy, pandas and of Python's \<^verbatim>\<open>float\<close> that the module
  calls on numeric data. They are parameters: every theorem below holds for all
  of them.
  \<^item> \<open>nanmean_int col\<close> is \<^verbatim>\<open>int(np.nanmean(col))\<close>, \<open>nanmedian_int\<close> likewise;
  \<^item> \<open>timedelta_seconds t0 t1\<close> is
    \<^verbatim>\<open>np.timedelta64(t1 - t0, "s").astype(int).item()\<close>;
  \<^item> \<open>float_of_string\<close> is the conversion \<^verbatim>\<open>np.array(..., dtype=float)\<close>
    applies to each token;
  \<^item> \<open>true_divide\<close> and \<open>float_of_int\<close> make up \<^verbatim>\<open>x / 1000\<close> on an array;
  \<^item> \<open>array_flatten vs\<close> is \<^verbatim>\<open>np.array(vs).flatten()\<close>;
  \<^item> \<open>loadtxt_fields line\<close> is the list of fields \<^verbatim>\<open>np.loadtxt\<close> finds in one line of
    text: what follows a \<^verbatim>\<open>#\<close> is a comment, and whitespace separates the fields;
  \<^item> \<open>loadtxt_float\<close> is the conversion \<^verbatim>\<open>np.loadtxt\<close> applies to each field.
\<close>

record 'f numpy =
  nanmean_int :: "'f py_value list \<Rightarrow> py_error + int"
  nanmedian_int :: "'f py_value list \<Rightarrow> py_error + int"
  timedelta_seconds :: "'f py_value \<Rightarrow> 'f py_value \<Rightarrow> py_error + int"
  float_of_string :: "string \<Rightarrow> py_error + 'f"
  true_divide :: "'f \<Rightarrow> 'f \<Rightarrow> 'f"
  float_of_int :: "int \<Rightarrow> 'f"
  array_flatten :: "'f py_value list \<Rightarrow> py_error + 'f py_value list"
  loadtxt_fields :: "string \<Rightarrow> string list"
  loadtxt_float :: "string \<Rightarrow> py_error + 'f"

section \<open>Naive datetimes\<close>

text \<open>
  The proleptic Gregorian calendar of \<^verbatim>\<open>datetime\<close>: \<open>ymd2ord\<close> numbers the days
  from 0001-01-01 (day 1), and a datetime is the count of seconds since the
  midnight that starts day 1.
\<close>

definition is_leap :: "int \<Rightarrow> bool" where
  "is_leap y = (y mod 4 = 0 \<and> (y mod 100 \<noteq> 0 \<or> y mod 400 = 0))"

definition days_before_year :: "int \<Rightarrow> int" where
  "days_before_year year = (let y = year - 1 in y * 365 + y div 4 - y div 100 + y div 400)"

definition days_in_month :: "int \<Rightarrow> int \<Rightarrow> int" where
  "days_in_month year month =
     (if month = 2 \<and> is_leap year then 29
      else [31, 28, 31, 30, 31, 30, 31, 31, 30, 31, 30, 31] ! nat (month - 1))"

definition days_before_month :: "int \<Rightarrow> int \<Rightarrow> int" where
  "days_before_month year month =
     [0, 31, 59, 90, 120, 151, 181, 212, 243, 273, 304, 334] ! nat (month - 1)
     + (if month > 2 \<and> is_leap year then 1 else 0)"

definition ymd2ord :: "int \<Rightarrow> int \<Rightarrow> int \<Rightarrow> int" where
  "ymd2ord year month day = days_before_year year + days_before_month year month + day"

definition valid_datetime :: "int \<Rightarrow> int \<Rightarrow> int \<Rightarrow> int \<Rightarrow> int \<Rightarrow> int \<Rightarrow> bool" where
  "valid_datetime y mo d h mi s =
     (1 \<le> y \<and> y \<le> 9999 \<and> 1 \<le> mo \<and> mo \<le> 12 \<and> 1 \<le> d \<and> d \<le> days_in_month y mo
      \<and> 0 \<le> h \<and> h \<le> 23 \<and> 0 \<le> mi \<and> mi \<le> 59 \<and> 0 \<le> s \<and> s \<le> 59)"

definition datetime_of :: "int \<Rightarrow> int \<Rightarrow> int \<Rightarrow> int \<Rightarrow> int \<Rightarrow> int \<Rightarrow> int" where
  \<comment> \<open>\<^verbatim>\<open>datetime(y, mo, d, h, mi, s)\<close> for valid fields\<close>
  "datetime_of y mo d h mi s = (ymd2ord y mo d - 1) * 86400 + h * 3600 + mi * 60 + s"

definition datetime_add_seconds :: "int \<Rightarrow> int \<Rightarrow> py_error + int" where
  \<comment> \<open>\<^verbatim>\<open>dt + timedelta(seconds=n)\<close>; the result must lie in the years 1 to 9999\<close>
  "datetime_add_seconds dt n =
     (if 0 \<le> dt + n \<and> dt + n < days_before_year 10000 * 86400 then Inr (dt + n)
      else Inl OverflowError)"

text \<open>
  \<^verbatim>\<open>datetime.fromisoformat\<close> with the grammar of CPython 3.7 to 3.10,
  \<^verbatim>\<open>YYYY-MM-DD[*HH[:MM[:SS[.fff[fff]]]][+HH:MM[:SS[.ffffff]]]]\<close>. The caller below
  only builds strings of 19 characters whose last 8 characters hold exactly two
  colons; among these the grammar accepts the shape \<^verbatim>\<open>YYYY-MM-DD*HH:MM:SS\<close> and
  nothing else, which is what this definition decides. (Later releases also read
  other ISO 8601 spellings; the theorems are about digit-shaped input, where all
  releases agree.)
\<close>

definition num2 :: "char \<Rightarrow> char \<Rightarrow> int" where
  "num2 a b = 10 * digit_val a + digit_val b"

definition fromisoformat :: "string \<Rightarrow> py_error + int" where
  "fromisoformat s =
     (case s of
        [y1, y2, y3, y4, s1, m1, m2, s2, d1, d2, sep, h1, h2, c1, i1, i2, c2, e1, e2] \<Rightarrow>
          (let y = 100 * num2 y1 y2 + num2 y3 y4; mo = num2 m1 m2; d = num2 d1 d2;
               h = num2 h1 h2; mi = num2 i1 i2; se = num2 e1 e2
           in if list_all is_digit [y1, y2, y3, y4, m1, m2, d1, d2, h1, h2, i1, i2, e1, e2]
                 \<and> s1 = CHR ''-'' \<and> s2 = CHR ''-'' \<and> c1 = CHR '':'' \<and> c2 = CHR '':''
                 \<and> valid_datetime y mo d h mi se
              then Inr (datetime_of y mo d h mi se)
              else Inl (ValueError ''Invalid isoformat string''))
      | _ \<Rightarrow> Inl (ValueError ''Invalid isoformat string''))"

section \<open>HRMonitorApp: the statistics section\<close>

text \<open>
  \<^verbatim>\<open>
  def _hrmonitorapp_date_time_to_datetime(date: str, time_: str):
      assert len(date) == 8 and len(date.split("/")) == 3
      assert len(time_) == 8 and len(time_.split(":")) == 3
      mm, dd, yy = date.split("/")
      datetime_iso_string = f"20{yy}-{mm}-{dd} {time_}"
      return datetime.datetime.fromisoformat(datetime_iso_string)
  \<close>
\<close>

definition hrmonitorapp_date_time_to_datetime :: "string \<Rightarrow> string \<Rightarrow> py_error + int" where
  "hrmonitorapp_date_time_to_datetime date time' =
     (if \<not> (length date = 8 \<and> length (split (CHR ''/'') date) = 3) then Inl AssertionError
      else if \<not> (length time' = 8 \<and> length (split (CHR '':'') time') = 3) then Inl AssertionError
      else (case split (CHR ''/'') date of
              [mm, dd, yy] \<Rightarrow> fromisoformat (''20'' @ yy @ ''-'' @ mm @ ''-'' @ dd @ '' '' @ time')
            | _ \<Rightarrow> Inl (ValueError ''not enough values to unpack'')))"

text \<open>
  \<^verbatim>\<open>
  def _hrmonitorapp_parse_stats(lines) -> Dict:
      pairs = [line.split(",") for line in lines]
      pairs = [(pair[0].lower(), pair[1]) for pair in pairs]
      data = dict(pairs)
      date = data["date"]
      time_ = data["start"]
      duration = data["duration"]
      datetime_start = _hrmonitorapp_date_time_to_datetime(date, time_)
      duration = _hrmonitorapp_duration_to_seconds(duration)
      datetime_end = datetime_start + datetime.timedelta(seconds=duration)
      stats = dict(datetime_start=datetime_start, datetime_end=datetime_end,
                   duration=duration)
      return stats
  \<close>
\<close>

definition stats_dict :: "string list \<Rightarrow> py_error + string dict" where
  \<comment> \<open>the first three statements: the dictionary \<^verbatim>\<open>data\<close>\<close>
  "stats_dict lines =
     (let pairs = map (split (CHR '','')) lines in
      bind (map_err (\<lambda>pair. bind (item pair 0) (\<lambda>k. bind (item pair 1) (\<lambda>v.
              Inr (lower k, v)))) pairs) (\<lambda>pairs.
      Inr (dict_of pairs)))"

definition hrmonitorapp_parse_stats :: "string list \<Rightarrow> py_error + 'f py_value dict" where
  "hrmonitorapp_parse_stats lines =
     bind (stats_dict lines) (\<lambda>data.
     bind (getitem data ''date'') (\<lambda>date.
     bind (getitem data ''start'') (\<lambda>time'.
     bind (getitem data ''duration'') (\<lambda>duration.
     bind (hrmonitorapp_date_time_to_datetime date time') (\<lambda>datetime_start.
     bind (hrmonitorapp_duration_to_seconds duration) (\<lambda>duration.
     bind (datetime_add_seconds datetime_start duration) (\<lambda>datetime_end.
     Inr [''datetime_start'' \<mapsto> VDatetime datetime_start,
          ''datetime_end'' \<mapsto> VDatetime datetime_end,
          ''duration'' \<mapsto> VInt duration])))))))"

section \<open>HRMonitorApp: the history section and the file scan\<close>

text \<open>
  \<^verbatim>\<open>_get_lines_until_blank(file_)\<close> reads from the file iterator it is given. The
  model returns the collected lines together with the lines left in the
  iterator; the blank line that ends the section is consumed.
\<close>

fun get_lines_until_blank :: "string list \<Rightarrow> string list \<times> string list" where
  "get_lines_until_blank [] = ([], [])"
| "get_lines_until_blank (line # file) =
     (if strip line = [] then ([], file)
      else (case get_lines_until_blank file of
              (lines, rest) \<Rightarrow> (strip line # lines, rest)))"

lemma get_lines_until_blank_rest:
  "length (snd (get_lines_until_blank ls)) \<le> length ls"
  by (induction ls) (auto split: prod.splits)

definition renames :: "string dict" where
  "renames = [''sec'' \<mapsto> ''timestamp'', ''hr_bpm'' \<mapsto> ''heart_rate'']"

definition np_array_float :: "'f numpy \<Rightarrow> string list list \<Rightarrow> py_error + 'f list list" where
  \<comment> \<open>\<^verbatim>\<open>np.array(rows, dtype=float)\<close>: the rows have one length, every token converts\<close>
  "np_array_float np rows =
     (if \<not> list_all (\<lambda>r. length r = length (hd rows)) rows
      then Inl (ValueError ''setting an array element with a sequence'')
      else map_err (map_err (float_of_string np)) rows)"

definition hrmonitorapp_parse_recordings ::
  "'f numpy \<Rightarrow> string list \<Rightarrow> py_error + 'f py_value list dict" where
  "hrmonitorapp_parse_recordings np lines_recordings =
     (let tokens = map (split (CHR '','')) lines_recordings in
      bind (item tokens 0) (\<lambda>headers.
      let headers = map lower headers;
          headers = map (\<lambda>header. case renames header of None \<Rightarrow> header | Some r \<Rightarrow> r) headers;
          values = tl tokens
      in bind (np_array_float np values) (\<lambda>values.
         let values = transpose values
         in Inr (dict_of (zip headers (map (map VFloat) values))))))"

text \<open>
  The scan of \<^verbatim>\<open>load_hrmonitorapp\<close>. The local variable \<^verbatim>\<open>recordings\<close> is bound
  only by the \<^verbatim>\<open>{History}\<close> branch: the state carries \<open>None\<close> until then, and the
  final \<^verbatim>\<open>return data, recordings\<close> raises \<^verbatim>\<open>UnboundLocalError\<close> on \<open>None\<close>.
\<close>

function hrmonitorapp_scan ::
  "'f numpy \<Rightarrow> string list \<Rightarrow> 'f py_value dict \<times> 'f py_value list dict option
     \<Rightarrow> py_error + ('f py_value dict \<times> 'f py_value list dict option)" where
  "hrmonitorapp_scan np [] st = Inr st"
| "hrmonitorapp_scan np (line # file) st =
     (if strip line = ''{Statistics}'' then
        (case hrmonitorapp_parse_stats (fst (get_lines_until_blank file)) of
           Inl e \<Rightarrow> Inl e
         | Inr stats \<Rightarrow>
             hrmonitorapp_scan np (snd (get_lines_until_blank file)) (fst st ++ stats, snd st))
      else if strip line = ''{History}'' then
        (case hrmonitorapp_parse_recordings np (fst (get_lines_until_blank file)) of
           Inl e \<Rightarrow> Inl e
         | Inr recordings \<Rightarrow>
             hrmonitorapp_scan np (snd (get_lines_until_blank file)) (fst st, Some recordings))
      else hrmonitorapp_scan np file st)"
  by pat_completeness auto
termination
  by (relation "measure (\<lambda>(np, lines, st). length lines)")
    (simp_all add: get_lines_until_blank_rest le_imp_less_Suc)

definition load_hrmonitorapp ::
  "'f numpy \<Rightarrow> string list \<Rightarrow> py_error + ('f py_value dict \<times> 'f py_value list dict)" where
  "load_hrmonitorapp np file =
     (let data = [''file_hash'' \<mapsto> VNone,
                  ''name'' \<mapsto> VNone, ''sport'' \<mapsto> VNone, ''sub_sport'' \<mapsto> VNone,
                  ''workout'' \<mapsto> VNone,
                  ''device_manufacturer'' \<mapsto> VNone, ''device_model'' \<mapsto> VNone,
                  ''datetime_start'' \<mapsto> VNone, ''datetime_end'' \<mapsto> VNone,
                  ''duration'' \<mapsto> VNone, ''distance'' \<mapsto> VNone,
                  ''heartrate_mean'' \<mapsto> VNone, ''heartrate_median'' \<mapsto> VNone]
      in bind (hrmonitorapp_scan np file (data, None)) (\<lambda>st.
           (case snd st of
              None \<Rightarrow> Inl (UnboundLocalError ''recordings'')
            | Some recordings \<Rightarrow> Inr (fst st, recordings))))"

section \<open>FIT: decoded messages\<close>

text \<open>
  The FIT container is decoded by the library \<^verbatim>\<open>fitparse\<close>; the model starts
  from what it yields, the data messages of the file in file order, each with a
  type name and its fields in order.
\<close>

datatype 'f message = Message (msg_name: string) (msg_fields: "(string \<times> 'f py_value) list")

text \<open>
  \<^verbatim>\<open>
  message_types = set(message.name for message in messages)
  data = collections.defaultdict(list)
  for message_type in message_types:
      messages_data = [
          {data.name: data.value for data in message}
          for message in fit_data.get_messages(message_type)
      ]
      data[message_type] = messages_data
  \<close>
  For a type name that occurs, \<^verbatim>\<open>data[t]\<close> is the list of the field dictionaries
  of the messages of that type, in file order; for any other name the
  \<^verbatim>\<open>defaultdict\<close> answers with the empty list. Both are the filter below.
\<close>

definition get_messages :: "'f message list \<Rightarrow> string \<Rightarrow> 'f py_value dict list" where
  "get_messages messages message_type =
     map (\<lambda>message. dict_of (msg_fields message))
       (filter (\<lambda>message. msg_name message = message_type) messages)"

text \<open>
  \<^verbatim>\<open>
  recordings = pd.DataFrame.from_records(data["record"])
  recordings = {column: recordings[column].values for column in recordings.columns}
  \<close>
  A column exists for every field name that some row has; a row without the
  field holds the missing-value marker there. (The conversions pandas applies
  to the cells of a column are not modelled; no statement below reads a cell.)
\<close>

definition from_records :: "'f py_value dict list \<Rightarrow> 'f py_value list dict" where
  "from_records rows =
     (\<lambda>column. if list_ex (\<lambda>row. row column \<noteq> None) rows
        then Some (map (\<lambda>row. case row column of None \<Rightarrow> VNaN | Some v \<Rightarrow> v) rows)
        else None)"

text \<open>
  \<^verbatim>\<open>
  datetime_start = None
  datetime_end = None
  for data_event in data["event"]:
      if not data_event["event"] == "timer":
          continue
      if data_event["event_type"] == "start":
          datetime_start = data_event["timestamp"]
      elif data_event["event_type"] == "stop_all":
          datetime_end = data_event["timestamp"]
  \<close>
  The state of the loop is the pair \<open>(datetime_start, datetime_end)\<close>.
\<close>

definition scan_event ::
  "'f py_value dict \<Rightarrow> 'f py_value \<times> 'f py_value \<Rightarrow> py_error + ('f py_value \<times> 'f py_value)" where
  "scan_event data_event st =
     bind (getitem data_event ''event'') (\<lambda>event.
       if event \<noteq> VStr ''timer'' then Inr st
       else bind (getitem data_event ''event_type'') (\<lambda>event_type.
         if event_type = VStr ''start''
         then bind (getitem data_event ''timestamp'') (\<lambda>t. Inr (t, snd st))
         else if event_type = VStr ''stop_all''
         then bind (getitem data_event ''timestamp'') (\<lambda>t. Inr (fst st, t))
         else Inr st))"

fun scan_events ::
  "'f py_value dict list \<Rightarrow> 'f py_value \<times> 'f py_value \<Rightarrow> py_error + ('f py_value \<times> 'f py_value)" where
  "scan_events [] st = Inr st"
| "scan_events (data_event # events) st =
     (case scan_event data_event st of
        Inl e \<Rightarrow> Inl e
      | Inr st' \<Rightarrow> scan_events events st')"

section \<open>FIT: \<^verbatim>\<open>load_fit\<close>\<close>

definition load_fit ::
  "'f numpy \<Rightarrow> 'f message list \<Rightarrow> py_error + ('f py_value dict \<times> 'f py_value list dict)" where
  "load_fit np messages =
     (let data = get_messages messages;
          recordings = from_records (data ''record'')
      in
      bind (item (data ''sport'') 0) (\<lambda>data_sport.
      bind (getitem data_sport ''name'') (\<lambda>name.
      bind (getitem data_sport ''sport'') (\<lambda>sport.
      bind (getitem data_sport ''sub_sport'') (\<lambda>sub_sport.
      bind (item (data ''file_id'') 0) (\<lambda>data_file_id.
      bind (getitem data_file_id ''manufacturer'') (\<lambda>device_manufacturer.
      bind (if device_manufacturer = VStr ''garmin''
            then getitem data_file_id ''garmin_product'' else Inr VNone) (\<lambda>device_model.
      bind (scan_events (data ''event'') (VNone, VNone)) (\<lambda>datetimes.
      bind (case recordings ''heart_rate'' of
              None \<Rightarrow> Inr (VNone, VNone)
            | Some heartrate \<Rightarrow>
                bind (nanmean_int np heartrate) (\<lambda>heartrate_mean.
                bind (nanmedian_int np heartrate) (\<lambda>heartrate_median.
                Inr (VInt heartrate_mean, VInt heartrate_median)))) (\<lambda>heartrates.
      bind (getitem recordings ''timestamp'') (\<lambda>timestamps.
      bind (item timestamps 0) (\<lambda>time_start.
      bind (last_item timestamps) (\<lambda>time_end.
      bind (timedelta_seconds np time_start time_end) (\<lambda>duration.
      bind (getitem recordings ''distance'') (\<lambda>distances.
      bind (last_item distances) (\<lambda>distance.
      Inr ([''device_manufacturer'' \<mapsto> device_manufacturer,
            ''device_model'' \<mapsto> device_model,
            ''datetime_start'' \<mapsto> fst datetimes,
            ''datetime_end'' \<mapsto> snd datetimes,
            ''name'' \<mapsto> name,
            ''sport'' \<mapsto> sport,
            ''sub_sport'' \<mapsto> sub_sport,
            ''duration'' \<mapsto> VInt duration,
            ''distance'' \<mapsto> distance,
            ''heartrate_mean'' \<mapsto> fst heartrates,
            ''heartrate_median'' \<mapsto> snd heartrates],
           recordings)))))))))))))))))"

section \<open>Format detection: \<^verbatim>\<open>load\<close>\<close>

text \<open>
  \<^verbatim>\<open>pathlib.Path\<close> on a POSIX system: the name is the last component of the
  path that is neither empty nor \<^verbatim>\<open>.\<close>; the suffix starts at the last dot of the
  name, unless that dot is the first or the last character of the name.
\<close>

definition path_parts :: "string \<Rightarrow> string list" where
  "path_parts path = filter (\<lambda>x. x \<noteq> [] \<and> x \<noteq> ''.'') (split (CHR ''/'') path)"

definition path_name :: "string \<Rightarrow> string" where
  "path_name path = (case path_parts path of [] \<Rightarrow> [] | x # xs \<Rightarrow> last (x # xs))"

fun rfind :: "char \<Rightarrow> string \<Rightarrow> int" where
  \<comment> \<open>\<^verbatim>\<open>s.rfind(c)\<close>: the last index of \<open>c\<close>, or \<open>-1\<close>\<close>
  "rfind c [] = - 1"
| "rfind c (x # xs) =
     (let i = rfind c xs in if 0 \<le> i then i + 1 else if x = c then 0 else - 1)"

definition path_suffix :: "string \<Rightarrow> string" where
  "path_suffix path =
     (let name = path_name path; i = rfind (CHR ''.'') name
      in if 0 < i \<and> i < int (length name) - 1 then drop (nat i) name else [])"

definition path_str :: "string \<Rightarrow> string" where
  \<comment> \<open>\<^verbatim>\<open>str(path)\<close>\<close>
  "path_str path =
     (let root = (if take 1 path \<noteq> ''/'' then []
                  else if take 1 (drop 1 path) \<noteq> ''/'' \<or> take 1 (drop 2 path) = ''/'' then ''/''
                  else ''//'');
          parts = path_parts path
      in if root = [] \<and> parts = [] then ''.''
         else root @ concat (case parts of [] \<Rightarrow> [] | x # xs \<Rightarrow> x # map (\<lambda>y. ''/'' @ y) xs))"

definition ACTIVITY_SCHEMA :: "'f py_value dict" where
  "ACTIVITY_SCHEMA =
     [''file_hash'' \<mapsto> VNone,
      ''name'' \<mapsto> VNone, ''sport'' \<mapsto> VNone, ''sub_sport'' \<mapsto> VNone, ''workout'' \<mapsto> VNone,
      ''device_manufacturer'' \<mapsto> VNone, ''device_model'' \<mapsto> VNone,
      ''datetime_start'' \<mapsto> VNone, ''datetime_end'' \<mapsto> VNone,
      ''duration'' \<mapsto> VNone, ''distance'' \<mapsto> VNone,
      ''heartrate_mean'' \<mapsto> VNone, ''heartrate_median'' \<mapsto> VNone]"

definition is_hrmonitorapp_activity :: "string \<Rightarrow> bool" where
  "is_hrmonitorapp_activity path =
     (lower (path_suffix path) = ''.csv'' \<and> startswith (path_name path) ''user_hr_data_'')"

text \<open>
  \<^verbatim>\<open>
  def load(path):
      path = pathlib.Path(path)
      if path.suffix.lower() == ".fit":
          return load_fit(path)
      elif _is_hrmonitorapp_activity(path):
          return load_hrmonitorapp(path)
      raise ValueError(f"unsupported activity file format {path}")
  \<close>
  The file behind the path is given by its two readings: \<open>messages\<close> is what the
  FIT decoder yields for it, \<open>file\<close> its lines as text.
\<close>

definition load ::
  "'f numpy \<Rightarrow> string \<Rightarrow> 'f message list \<Rightarrow> string list
     \<Rightarrow> py_error + ('f py_value dict \<times> 'f py_value list dict)" where
  "load np path messages file =
     (if lower (path_suffix path) = ''.fit'' then load_fit np messages
      else if is_hrmonitorapp_activity path then load_hrmonitorapp np file
      else Inl (ValueError (''unsupported activity file format '' @ path_str path)))"

section \<open>RR intervals: \<^verbatim>\<open>load_rr\<close>\<close>

text \<open>
  \<^verbatim>\<open>
  def load_rr_from_fit(path):
      records = fit_data.get_messages('hrv')
      rr_intervals_with_nones = [record_data.value for record in records
                                 for record_data in record]
      rr = np.array(rr_intervals_with_nones)
      rr = rr.flatten()
      rr = rr[rr != None]
      return rr
  \<close>
\<close>

definition load_rr_from_fit :: "'f numpy \<Rightarrow> 'f message list \<Rightarrow> py_error + 'f py_value ndarray" where
  "load_rr_from_fit np messages =
     (let records = filter (\<lambda>message. msg_name message = ''hrv'') messages;
          rr_intervals_with_nones = concat (map (\<lambda>record. map snd (msg_fields record)) records)
      in bind (array_flatten np rr_intervals_with_nones) (\<lambda>rr.
           let rr = filter (\<lambda>v. v \<noteq> VNone) rr in Inr (NDArray [length rr] rr)))"

text \<open>
  \<^verbatim>\<open>
  def load_rr_from_csv(path):
      return np.loadtxt(path)
  \<close>
  The call leaves every option of \<^verbatim>\<open>np.loadtxt\<close> at its default. As numpy
  documents it, the function then reads the text line by line; a line without
  data (empty, or holding only whitespace or a comment) is skipped; each other
  line is one row, and every row must have the same number of values, otherwise
  \<^verbatim>\<open>ValueError\<close> is raised, as it is for a field that does not convert; the rows
  make up an array of floats, from which axes of length 1 are squeezed
  (\<^verbatim>\<open>ndmin=0\<close>); input without data gives an empty array of shape \<open>(0,)\<close> (and a
  warning). The rows are read in order, so the first row that is too long, too
  short or holds a bad field raises the error. \<open>file\<close> is the text of the file,
  line by line.
\<close>

definition loadtxt_data :: "'f numpy \<Rightarrow> string list \<Rightarrow> string list list" where
  \<comment> \<open>the rows of fields of the lines that hold data\<close>
  "loadtxt_data np file = filter (\<lambda>row. row \<noteq> []) (map (loadtxt_fields np) file)"

fun loadtxt_rows :: "'f numpy \<Rightarrow> nat \<Rightarrow> string list list \<Rightarrow> py_error + 'f list list" where
  "loadtxt_rows np n [] = Inr []"
| "loadtxt_rows np n (row # rows) =
     (if length row \<noteq> n then Inl (ValueError ''the number of columns changed'')
      else bind (map_err (loadtxt_float np) row) (\<lambda>xs.
           bind (loadtxt_rows np n rows) (\<lambda>xss. Inr (xs # xss))))"

definition squeeze :: "nat list \<Rightarrow> nat list" where
  \<comment> \<open>the shape after \<^verbatim>\<open>np.squeeze\<close>\<close>
  "squeeze sh = filter (\<lambda>n. n \<noteq> 1) sh"

definition loadtxt :: "'f numpy \<Rightarrow> string list \<Rightarrow> py_error + 'f ndarray" where
  "loadtxt np file =
     (let rows = loadtxt_data np file in
      if rows = [] then Inr (NDArray [0] [])
      else bind (loadtxt_rows np (length (hd rows)) rows) (\<lambda>xss.
           Inr (NDArray (squeeze [length rows, length (hd rows)]) (concat xss))))"

definition load_rr_from_csv :: "'f numpy \<Rightarrow> string list \<Rightarrow> py_error + 'f ndarray" where
  "load_rr_from_csv np file = loadtxt np file"

text \<open>
  \<^verbatim>\<open>
  def load_rr(path):
      if path.suffix.lower() == ".fit":
          rr_raw = load_rr_from_fit(path)
      elif path.suffix.lower() == ".csv":
          rr_raw_ms = load_rr_from_csv(path)
          rr_raw_s = rr_raw_ms / 1000
          rr_raw = rr_raw_s
      else:
          raise ValueError("input file not supported (must be .fit or .csv)")
      return rr_raw
  \<close>
  The division of an array by \<^verbatim>\<open>1000\<close> divides every element and keeps the
  shape.
\<close>

definition load_rr ::
  "'f numpy \<Rightarrow> string \<Rightarrow> 'f message list \<Rightarrow> string list \<Rightarrow> py_error + 'f py_value ndarray" where
  "load_rr np path messages file =
     (if lower (path_suffix path) = ''.fit'' then load_rr_from_fit np messages
      else if lower (path_suffix path) = ''.csv''
      then bind (load_rr_from_csv np file) (\<lambda>rr_raw_ms.
           Inr (NDArray (arr_shape rr_raw_ms)
                  (map (\<lambda>x. VFloat (true_divide np x (float_of_int np 1000)))
                     (arr_elements rr_raw_ms))))
      else Inl (ValueError ''input file not supported (must be .fit or .csv)''))"

section \<open>An instance for the concrete examples\<close>

text \<open>
  The theorems below hold for every \<open>numpy\<close>. The examples that evaluate the
  functions on concrete files need one instance: here a float is a rational
  number, the mean and the median are taken over the integer cells of a column,
  the time difference is taken between two datetimes, and a token converts when
  it is an integer literal. For \<^verbatim>\<open>np.loadtxt\<close>, the fields of a line are the
  words left when the text from \<^verbatim>\<open>#\<close> on is dropped, and a field converts when it
  is a string of digits. The quotient is the exact one, which is what the
  division of doubles returns whenever the exact quotient is a double, as it is
  in the examples below.
\<close>

definition int_cells :: "'f py_value list \<Rightarrow> int list" where
  "int_cells col = concat (map (\<lambda>v. case v of VInt n \<Rightarrow> [n] | _ \<Rightarrow> []) col)"

definition words :: "string \<Rightarrow> string list" where
  \<comment> \<open>\<^verbatim>\<open>str.split()\<close>: the maximal runs of characters that are not whitespace\<close>
  "words s =
     filter (\<lambda>w. w \<noteq> [])
       (split (CHR '' '') (map (\<lambda>c. if is_space c then CHR '' '' else c) s))"

definition np_example :: "rat numpy" where
  "np_example =
     \<lparr> nanmean_int = (\<lambda>col. let xs = int_cells col in
          if xs = [] then Inl (ValueError ''cannot convert float NaN to integer'')
          else Inr (sum_list xs div int (length xs))),
       nanmedian_int = (\<lambda>col. let xs = sort (int_cells col); n = length xs in
          if xs = [] then Inl (ValueError ''cannot convert float NaN to integer'')
          else if odd n then Inr (xs ! (n div 2))
          else Inr ((xs ! (n div 2 - 1) + xs ! (n div 2)) div 2)),
       timedelta_seconds = (\<lambda>t0 t1. case (t0, t1) of
            (VDatetime a, VDatetime b) \<Rightarrow> Inr (b - a)
          | _ \<Rightarrow> Inl (ValueError ''Could not convert object to NumPy timedelta'')),
       float_of_string = (\<lambda>s. case py_int s of
            Inl e \<Rightarrow> Inl (ValueError ''could not convert string to float'')
          | Inr n \<Rightarrow> Inr (of_int n)),
       true_divide = (\<lambda>x y. x / y),
       float_of_int = of_int,
       array_flatten = (\<lambda>vs. Inr (concat (map (\<lambda>v. case v of VTuple xs \<Rightarrow> xs | _ \<Rightarrow> [v]) vs))),
       loadtxt_fields = (\<lambda>line. words (takeWhile (\<lambda>c. c \<noteq> CHR ''#'') line)),
       loadtxt_float = (\<lambda>w.
          if w \<noteq> [] \<and> list_all is_digit w then Inr (of_int (digits_val w))
          else Inl (ValueError ''could not convert string to float'')) \<rparr>"

text \<open>
  A FIT activity with one sport message, one file id, two records and two timer
  events of each kind.
\<close>

definition fit_sport :: "rat message" where
  "fit_sport = Message ''sport''
     [(''name'', VStr ''Run''), (''sport'', VStr ''running''), (''sub_sport'', VStr ''generic'')]"

definition fit_file_id :: "rat message" where
  "fit_file_id = Message ''file_id''
     [(''manufacturer'', VStr ''garmin''), (''garmin_product'', VStr ''fr945'')]"

definition fit_event :: "string \<Rightarrow> int \<Rightarrow> rat message" where
  "fit_event event_type t = Message ''event''
     [(''event'', VStr ''timer''), (''event_type'', VStr event_type), (''timestamp'', VDatetime t)]"

definition fit_record :: "int \<Rightarrow> int \<Rightarrow> rat message" where
  "fit_record t d = Message ''record'' [(''timestamp'', VDatetime t), (''distance'', VInt d)]"

definition fit_activity :: "rat message list" where
  "fit_activity =
     [fit_file_id, fit_sport,
      fit_event ''start'' 100, fit_record 100 0, fit_event ''stop_all'' 160,
      fit_event ''start'' 200, fit_record 260 50, fit_event ''stop_all'' 260]"

text \<open>An HRMonitorApp export with both sections, and one without \<^verbatim>\<open>{History}\<close>.\<close>

definition hrm_statistics :: "string list" where
  "hrm_statistics =
     [''{Statistics}'', ''Date,01/02/23'', ''Start,10:00:00'', ''Duration,01:30:00'', []]"

definition hrm_history :: "string list" where
  "hrm_history = [''{History}'', ''SEC,HR_BPM'', ''0,60'', ''1,61'', []]"

section \<open>Notions used to state the FIT properties\<close>

text \<open>
  \<open>timer_events k events\<close> are the event messages with \<^verbatim>\<open>event == "timer"\<close> and
  \<^verbatim>\<open>event_type == k\<close>, in file order. \<open>fit_header_ok\<close> says that the statements
  of \<^verbatim>\<open>load_fit\<close> up to the event scan succeed: there is a sport message with
  its three fields, a file id with its manufacturer (and the product, for
  Garmin), and every field the scan reads is there. \<open>fit_duration_ok\<close> says
  that the heart-rate statistics and the duration can be computed.
\<close>

definition timer_events :: "string \<Rightarrow> 'f py_value dict list \<Rightarrow> 'f py_value dict list" where
  "timer_events event_type events =
     filter (\<lambda>data_event. data_event ''event'' = Some (VStr ''timer'')
        \<and> data_event ''event_type'' = Some (VStr event_type)) events"

definition fit_header_ok :: "'f message list \<Rightarrow> bool" where
  "fit_header_ok messages =
     ((case get_messages messages ''sport'' of
         [] \<Rightarrow> False
       | data_sport # _ \<Rightarrow>
           data_sport ''name'' \<noteq> None \<and> data_sport ''sport'' \<noteq> None
           \<and> data_sport ''sub_sport'' \<noteq> None)
      \<and> (case get_messages messages ''file_id'' of
         [] \<Rightarrow> False
       | data_file_id # _ \<Rightarrow>
           data_file_id ''manufacturer'' \<noteq> None
           \<and> (data_file_id ''manufacturer'' \<noteq> Some (VStr ''garmin'')
                \<or> data_file_id ''garmin_product'' \<noteq> None))
      \<and> \<not> isl (scan_events (get_messages messages ''event'') (VNone, VNone)))"

definition fit_duration_ok :: "'f numpy \<Rightarrow> 'f message list \<Rightarrow> bool" where
  "fit_duration_ok np messages =
     (let recordings = from_records (get_messages messages ''record'') in
      (case recordings ''heart_rate'' of
         None \<Rightarrow> True
       | Some heartrate \<Rightarrow>
           \<not> isl (nanmean_int np heartrate) \<and> \<not> isl (nanmedian_int np heartrate))
      \<and> (case recordings ''timestamp'' of
         None \<Rightarrow> False
       | Some timestamps \<Rightarrow>
           \<not> isl (timedelta_seconds np (hd timestamps) (last timestamps))))"

section \<open>Basic facts\<close>

lemma bind_Inl: "bind (Inl e) f = Inl e"
  by (simp add: bind_def)

lemma bind_Inr: "bind (Inr x) f = f x"
  by (simp add: bind_def)

lemma bind_eq_Inr: "bind r f = Inr y \<longleftrightarrow> (\<exists>x. r = Inr x \<and> f x = Inr y)"
  by (cases r) (simp_all add: bind_def)

lemma length_split: "length (split c s) = Suc (count_list s c)"
  by (induction s) (auto split: list.splits)

lemma digit_chars:
  "is_digit c \<Longrightarrow> \<not> is_space c \<and> \<not> is_int_space c \<and> c \<noteq> CHR ''-'' \<and> c \<noteq> CHR ''+''
     \<and> c \<noteq> CHR ''_'' \<and> c \<noteq> CHR '':'' \<and> c \<noteq> CHR ''/'' \<and> c \<noteq> CHR '',''"
  by (auto simp: is_digit_def is_space_def is_int_space_def Let_def)

lemma digit_val_range: "is_digit c \<Longrightarrow> 0 \<le> digit_val c \<and> digit_val c \<le> 9"
  by (auto simp: is_digit_def digit_val_def Let_def)

lemma num2_range: "is_digit a \<Longrightarrow> is_digit b \<Longrightarrow> 0 \<le> num2 a b \<and> num2 a b \<le> 99"
  using digit_val_range [of a] digit_val_range [of b] by (simp add: num2_def)

lemma py_int_two_digits:
  "is_digit a \<Longrightarrow> is_digit b \<Longrightarrow> py_int [a, b] = Inr (num2 a b)"
  using digit_chars [of a] digit_chars [of b]
  by (simp add: py_int_def digits_val_def num2_def)

lemma split_hms:
  assumes "list_all is_digit [a1, a2, b1, b2, c1, c2]"
  shows "split (CHR '':'') [a1, a2, CHR '':'', b1, b2, CHR '':'', c1, c2]
     = [[a1, a2], [b1, b2], [c1, c2]]"
  using assms by (auto dest!: digit_chars)

lemma duration_digits:
  assumes "list_all is_digit [a1, a2, b1, b2, c1, c2]"
  shows "hrmonitorapp_duration_to_seconds [a1, a2, CHR '':'', b1, b2, CHR '':'', c1, c2]
     = Inr (num2 a1 a2 * 3600 + num2 b1 b2 * 60 + num2 c1 c2)"
  unfolding hrmonitorapp_duration_to_seconds_def split_hms [OF assms]
  using assms by (simp add: py_int_two_digits bind_def)

section \<open>Duration values of the statistics section\<close>

text \<open>
  C4, as the code has it. A duration value is accepted exactly when it is 8
  characters long, splits at colons into exactly 3 components, and \<^verbatim>\<open>int\<close>
  accepts each component; the result is then \<open>hh * 3600 + mm * 60 + ss\<close>. A value
  of any other length, or with another number of components, fails the
  assertion: this rejects \<^verbatim>\<open>90:00\<close>, and it rejects \<^verbatim>\<open>1:2:3\<close> as well. The 8
  characters need not come from zero-padding: \<^verbatim>\<open>001:02:3\<close> and \<^verbatim>\<open>+1:+2:+3\<close> are
  both accepted, while a component that \<^verbatim>\<open>int\<close> refuses, such as \<^verbatim>\<open>1\<close> followed
  by the separator \<^verbatim>\<open>0x1C\<close>, makes the call fail.
\<close>

theorem duration_to_seconds_eight_chars:
  "(hrmonitorapp_duration_to_seconds s = Inr n \<longleftrightarrow>
      length s = 8 \<and> (\<exists>a b c hh mm ss. split (CHR '':'') s = [a, b, c]
        \<and> py_int a = Inr hh \<and> py_int b = Inr mm \<and> py_int c = Inr ss
        \<and> n = hh * 3600 + mm * 60 + ss))
   \<and> (length s \<noteq> 8 \<or> length (split (CHR '':'') s) \<noteq> 3
        \<longrightarrow> hrmonitorapp_duration_to_seconds s = Inl AssertionError)"
proof (cases "length s = 8 \<and> length (split (CHR '':'') s) = 3")
  case False
  then show ?thesis by (auto simp: hrmonitorapp_duration_to_seconds_def)
next
  case True
  then obtain a b c where abc: "split (CHR '':'') s = [a, b, c]"
    by (auto simp: length_Suc_conv numeral_3_eq_3)
  show ?thesis using True abc
    by (auto simp: hrmonitorapp_duration_to_seconds_def bind_def split: sum.splits)
qed

theorem duration_to_seconds_eight_chars_witness:
  "hrmonitorapp_duration_to_seconds ''001:02:3'' = Inr 3723
   \<and> hrmonitorapp_duration_to_seconds ''+1:+2:+3'' = Inr 3723
   \<and> hrmonitorapp_duration_to_seconds ''90:00'' = Inl AssertionError
   \<and> (\<forall>n. hrmonitorapp_duration_to_seconds
            [CHR ''1'', CHR 0x1C, CHR '':'', CHR ''0'', CHR ''0'', CHR '':'', CHR ''0'', CHR ''0'']
          \<noteq> Inr n)"
proof -
  have i: "py_int ''001'' = Inr 1" "py_int ''02'' = Inr 2" "py_int ''3'' = Inr 3"
    "py_int ''+1'' = Inr 1" "py_int ''+2'' = Inr 2" "py_int ''+3'' = Inr 3"
    "py_int [CHR ''1'', CHR 0x1C] = Inl (ValueError ''invalid literal for int() with base 10'')"
    by (simp_all add: py_int_def is_int_space_def is_digit_def digits_val_def digit_val_def)
  have "hrmonitorapp_duration_to_seconds ''001:02:3'' = Inr 3723"
    using i duration_to_seconds_eight_chars [of "''001:02:3''" 3723] by simp
  moreover have "hrmonitorapp_duration_to_seconds ''+1:+2:+3'' = Inr 3723"
    using i duration_to_seconds_eight_chars [of "''+1:+2:+3''" 3723] by simp
  moreover have "hrmonitorapp_duration_to_seconds ''90:00'' = Inl AssertionError"
    using duration_to_seconds_eight_chars [of "''90:00''" 0] by simp
  moreover have "hrmonitorapp_duration_to_seconds
        [CHR ''1'', CHR 0x1C, CHR '':'', CHR ''0'', CHR ''0'', CHR '':'', CHR ''0'', CHR ''0'']
      \<noteq> Inr n" for n
    using i duration_to_seconds_eight_chars
      [of "[CHR ''1'', CHR 0x1C, CHR '':'', CHR ''0'', CHR ''0'', CHR '':'', CHR ''0'', CHR ''0'']" n]
    by simp
  ultimately show ?thesis by simp
qed

text \<open>
  C4 as stated fails: \<^verbatim>\<open>1:2:3\<close> splits into three components that \<^verbatim>\<open>int\<close>
  accepts, and the assertion on the length still rejects it.
\<close>

theorem duration_without_padding_rejected:
  "split (CHR '':'') ''1:2:3'' = [''1'', ''2'', ''3'']
   \<and> map py_int [''1'', ''2'', ''3''] = [Inr 1, Inr 2, Inr 3]
   \<and> hrmonitorapp_duration_to_seconds ''1:2:3'' = Inl AssertionError"
  by (simp add: hrmonitorapp_duration_to_seconds_def py_int_def is_int_space_def
      is_digit_def digits_val_def digit_val_def)

section \<open>Calendar facts\<close>

lemma split_mdy:
  assumes "list_all is_digit [a1, a2, b1, b2, c1, c2]"
  shows "split (CHR ''/'') [a1, a2, CHR ''/'', b1, b2, CHR ''/'', c1, c2]
     = [[a1, a2], [b1, b2], [c1, c2]]"
  using assms by (auto dest!: digit_chars)

lemma days_before_year_bounds:
  assumes "1 \<le> y"
  shows "0 \<le> days_before_year y \<and> days_before_year y \<le> 366 * y"
proof -
  define z where "z = y - 1"
  have z: "0 \<le> z" "y = z + 1" using assms by (simp_all add: z_def)
  have a: "0 \<le> z div 4" "z div 4 \<le> z" using z(1) by arith+
  have b: "0 \<le> z div 100" "z div 100 \<le> z" using z(1) by arith+
  have c: "0 \<le> z div 400" "4 * (z div 400) \<le> z" using z(1) by arith+
  show ?thesis using z a b c unfolding days_before_year_def Let_def z_def [symmetric] by linarith
qed

lemma month_cases:
  assumes "1 \<le> (mo::int)" "mo \<le> 12"
  shows "mo \<in> {1, 2, 3, 4, 5, 6, 7, 8, 9, 10, 11, 12}"
  using assms by (simp add: insert_iff) presburger

lemma days_before_month_bounds:
  assumes "1 \<le> mo" "mo \<le> 12"
  shows "0 \<le> days_before_month y mo \<and> days_before_month y mo \<le> 335"
  using month_cases [OF assms] by (auto simp: days_before_month_def)

lemma days_in_month_le:
  assumes "1 \<le> mo" "mo \<le> 12"
  shows "days_in_month y mo \<le> 31"
  using month_cases [OF assms] by (auto simp: days_in_month_def)

lemma datetime_of_bounds:
  assumes "valid_datetime y mo d h mi s"
  shows "0 \<le> datetime_of y mo d h mi s \<and> datetime_of y mo d h mi s < (366 * y + 366) * 86400"
proof -
  have v: "1 \<le> y" "1 \<le> mo" "mo \<le> 12" "1 \<le> d" "d \<le> days_in_month y mo"
    "0 \<le> h" "h \<le> 23" "0 \<le> mi" "mi \<le> 59" "0 \<le> s" "s \<le> 59"
    using assms by (simp_all add: valid_datetime_def)
  have d31: "d \<le> 31" using v(5) days_in_month_le [OF v(2) v(3), of y] by simp
  have o: "1 \<le> ymd2ord y mo d" "ymd2ord y mo d \<le> 366 * y + 366"
    using days_before_year_bounds [OF v(1)] days_before_month_bounds [OF v(2) v(3), of y] v(4) d31
    by (simp_all add: ymd2ord_def)
  show ?thesis using o v(6-11) by (simp add: datetime_of_def)
qed

lemma div_step:
  fixes y k :: int
  assumes "0 < k"
  shows "y div k = (y - 1) div k + (if y mod k = 0 then 1 else 0)"
proof -
  define q r where "q = (y - 1) div k" and "r = (y - 1) mod k"
  have r: "0 \<le> r" "r < k" using assms by (simp_all add: r_def)
  have "y - 1 = k * q + r" by (simp add: q_def r_def)
  then have y: "y = k * q + (r + 1)" by simp
  show ?thesis
  proof (cases "r + 1 = k")
    case True
    then have y': "y = k * (q + 1) + 0" using y by (simp add: algebra_simps)
    have "y div k = q + 1" "y mod k = 0"
      using int_div_pos_eq [OF y'] int_mod_pos_eq [OF y'] assms by simp_all
    then show ?thesis by (simp add: q_def)
  next
    case False
    then have lt: "r + 1 < k" "0 \<le> r + 1" using r by simp_all
    have "y div k = q" "y mod k = r + 1"
      using int_div_pos_eq [OF y lt(2) lt(1)] int_mod_pos_eq [OF y lt(2) lt(1)] by simp_all
    then show ?thesis using r by (simp add: q_def)
  qed
qed

lemma leap_divisors:
  fixes y :: int
  shows "y mod 400 = 0 \<Longrightarrow> y mod 100 = 0" "y mod 100 = 0 \<Longrightarrow> y mod 4 = 0"
proof -
  have "(100::int) dvd 400" "(4::int) dvd 100" by simp_all
  then show "y mod 400 = 0 \<Longrightarrow> y mod 100 = 0" "y mod 100 = 0 \<Longrightarrow> y mod 4 = 0"
    by (metis mod_0_imp_dvd dvd_trans dvd_imp_mod_0)+
qed

lemma days_before_year_step:
  "days_before_year (y + 1) = days_before_year y + (if is_leap y then 366 else 365)"
proof -
  have a: "y div 4 = (y - 1) div 4 + (if y mod 4 = 0 then 1 else 0)" by (rule div_step) simp
  have b: "y div 100 = (y - 1) div 100 + (if y mod 100 = 0 then 1 else 0)"
    by (rule div_step) simp
  have c: "y div 400 = (y - 1) div 400 + (if y mod 400 = 0 then 1 else 0)"
    by (rule div_step) simp
  define A B C where "A = (y - 1) div 4" and "B = (y - 1) div 100" and "C = (y - 1) div 400"
  define p4 p100 p400 where "p4 \<longleftrightarrow> y mod 4 = 0" and "p100 \<longleftrightarrow> y mod 100 = 0"
    and "p400 \<longleftrightarrow> y mod 400 = 0"
  have m: "p400 \<Longrightarrow> p100" "p100 \<Longrightarrow> p4"
    using leap_divisors [of y] by (simp_all add: p4_def p100_def p400_def)
  have l: "days_before_year (y + 1) = y * 365 + y div 4 - y div 100 + y div 400"
    by (simp add: days_before_year_def)
  have r: "days_before_year y = (y - 1) * 365 + A - B + C"
    by (simp add: days_before_year_def Let_def A_def B_def C_def)
  have a': "y div 4 = A + (if p4 then 1 else 0)" using a by (simp add: A_def p4_def)
  have b': "y div 100 = B + (if p100 then 1 else 0)" using b by (simp add: B_def p100_def)
  have c': "y div 400 = C + (if p400 then 1 else 0)" using c by (simp add: C_def p400_def)
  have lp: "is_leap y \<longleftrightarrow> p4 \<and> (\<not> p100 \<or> p400)"
    by (simp add: is_leap_def p4_def p100_def p400_def)
  show ?thesis
    unfolding l r a' b' c' lp using m by (cases p4; cases p100; cases p400) simp_all
qed

lemma day_of_year_le:
  assumes "1 \<le> mo" "mo \<le> 12" "d \<le> days_in_month y mo"
  shows "days_before_month y mo + d \<le> (if is_leap y then 366 else 365)"
  using month_cases [OF assms(1,2)] assms(3)
  by (auto simp: days_before_month_def days_in_month_def split: if_splits)

text \<open>
  A datetime with the year \<open>y\<close> lies between the midnight that starts the year
  \<open>y\<close> and the midnight that starts the year \<open>y + 1\<close>.
\<close>

lemma datetime_of_in_year:
  assumes "valid_datetime y mo d h mi s"
  shows "days_before_year y * 86400 \<le> datetime_of y mo d h mi s
     \<and> datetime_of y mo d h mi s < days_before_year (y + 1) * 86400"
proof -
  have v: "1 \<le> mo" "mo \<le> 12" "1 \<le> d" "d \<le> days_in_month y mo"
    "0 \<le> h" "h \<le> 23" "0 \<le> mi" "mi \<le> 59" "0 \<le> s" "s \<le> 59"
    using assms by (simp_all add: valid_datetime_def)
  have m: "0 \<le> days_before_month y mo"
    using days_before_month_bounds [OF v(1) v(2), of y] by simp
  have o: "days_before_year y + 1 \<le> ymd2ord y mo d" "ymd2ord y mo d \<le> days_before_year (y + 1)"
    using m v(3) day_of_year_le [OF v(1) v(2) v(4)]
    by (simp_all add: ymd2ord_def days_before_year_step)
  show ?thesis using o v(5-10) by (simp add: datetime_of_def)
qed

text \<open>
  Three instants of the calendar, as \<^verbatim>\<open>datetime\<close> counts them: the first day,
  the Unix epoch, and the day after a leap day.
\<close>

lemma calendar_examples:
  "ymd2ord 1 1 1 = 1"
  "datetime_of 1970 1 1 0 0 0 = 62135596800"
  "ymd2ord 2024 3 1 = 738946"
  by (simp_all add: datetime_of_def ymd2ord_def days_before_year_def days_before_month_def
      is_leap_def)

lemma date_time_digits:
  assumes dg: "list_all is_digit [m1, m2, d1, d2, y1, y2]" "list_all is_digit [h1, h2, i1, i2, s1, s2]"
    and v: "valid_datetime (2000 + num2 y1 y2) (num2 m1 m2) (num2 d1 d2)
          (num2 h1 h2) (num2 i1 i2) (num2 s1 s2)"
  shows "hrmonitorapp_date_time_to_datetime
      [m1, m2, CHR ''/'', d1, d2, CHR ''/'', y1, y2] [h1, h2, CHR '':'', i1, i2, CHR '':'', s1, s2]
    = Inr (datetime_of (2000 + num2 y1 y2) (num2 m1 m2) (num2 d1 d2)
          (num2 h1 h2) (num2 i1 i2) (num2 s1 s2))"
proof -
  have c: "num2 (CHR ''2'') (CHR ''0'') = 20" "is_digit (CHR ''2'')" "is_digit (CHR ''0'')"
    by (simp_all add: num2_def digit_val_def is_digit_def)
  show ?thesis
    unfolding hrmonitorapp_date_time_to_datetime_def split_mdy [OF dg(1)] split_hms [OF dg(2)]
    using dg v by (simp add: fromisoformat_def c)
qed

section \<open>The statistics section\<close>

lemma days_before_year_10000: "days_before_year 10000 = 3652059"
  by (simp add: days_before_year_def)

text \<open>
  C9. When the statistics section gives a date \<^verbatim>\<open>MM/DD/YY\<close>, a start
  \<^verbatim>\<open>HH:MM:SS\<close> and a duration \<^verbatim>\<open>HH:MM:SS\<close> written with digits, and the date
  and start name a valid instant, then \<^verbatim>\<open>datetime_start\<close> is that instant in the
  year \<open>2000 + YY\<close>, \<^verbatim>\<open>duration\<close> is \<open>hh * 3600 + mm * 60 + ss\<close>, and
  \<^verbatim>\<open>datetime_end\<close> is \<^verbatim>\<open>datetime_start\<close> plus that many seconds. The start lies
  in the year \<open>2000 + YY\<close>: not before the midnight that starts this year, and
  before the midnight that starts the next one. The witness is the example of
  the specification: 01/02/23, 10:00:00, 01:30:00 give 2023-01-02T10:00:00, 5400
  and 2023-01-02T11:30:00, which are the seconds 63808250400 and 63808255800
  after 0001-01-01T00:00:00.
\<close>

theorem parse_stats_digits:
  assumes data: "stats_dict lines = Inr data"
    and date: "data ''date'' = Some [m1, m2, CHR ''/'', d1, d2, CHR ''/'', y1, y2]"
    and start: "data ''start'' = Some [h1, h2, CHR '':'', i1, i2, CHR '':'', s1, s2]"
    and duration: "data ''duration'' = Some [a1, a2, CHR '':'', b1, b2, CHR '':'', c1, c2]"
    and dg: "list_all is_digit [m1, m2, d1, d2, y1, y2]"
      "list_all is_digit [h1, h2, i1, i2, s1, s2]"
      "list_all is_digit [a1, a2, b1, b2, c1, c2]"
    and v: "valid_datetime (2000 + num2 y1 y2) (num2 m1 m2) (num2 d1 d2)
          (num2 h1 h2) (num2 i1 i2) (num2 s1 s2)"
  shows "hrmonitorapp_parse_stats lines =
     Inr [''datetime_start'' \<mapsto>
            VDatetime (datetime_of (2000 + num2 y1 y2) (num2 m1 m2) (num2 d1 d2)
              (num2 h1 h2) (num2 i1 i2) (num2 s1 s2)),
          ''datetime_end'' \<mapsto>
            VDatetime (datetime_of (2000 + num2 y1 y2) (num2 m1 m2) (num2 d1 d2)
              (num2 h1 h2) (num2 i1 i2) (num2 s1 s2)
              + (num2 a1 a2 * 3600 + num2 b1 b2 * 60 + num2 c1 c2)),
          ''duration'' \<mapsto> VInt (num2 a1 a2 * 3600 + num2 b1 b2 * 60 + num2 c1 c2)]
   \<and> days_before_year (2000 + num2 y1 y2) * 86400
       \<le> datetime_of (2000 + num2 y1 y2) (num2 m1 m2) (num2 d1 d2)
            (num2 h1 h2) (num2 i1 i2) (num2 s1 s2)
   \<and> datetime_of (2000 + num2 y1 y2) (num2 m1 m2) (num2 d1 d2)
         (num2 h1 h2) (num2 i1 i2) (num2 s1 s2)
       < days_before_year (2000 + num2 y1 y2 + 1) * 86400"
proof -
  let ?start = "datetime_of (2000 + num2 y1 y2) (num2 m1 m2) (num2 d1 d2)
      (num2 h1 h2) (num2 i1 i2) (num2 s1 s2)"
  let ?dur = "num2 a1 a2 * 3600 + num2 b1 b2 * 60 + num2 c1 c2"
  have y: "0 \<le> num2 y1 y2" "num2 y1 y2 \<le> 99" using dg(1) num2_range [of y1 y2] by simp_all
  have d: "0 \<le> ?dur" "?dur \<le> 99 * 3600 + 99 * 60 + 99"
    using dg(3) num2_range [of a1 a2] num2_range [of b1 b2] num2_range [of c1 c2] by simp_all
  have s: "0 \<le> ?start" "?start < (366 * (2000 + num2 y1 y2) + 366) * 86400"
    using datetime_of_bounds [OF v] by simp_all
  have add: "datetime_add_seconds ?start ?dur = Inr (?start + ?dur)"
    using y d s by (simp add: datetime_add_seconds_def days_before_year_10000)
  have "hrmonitorapp_parse_stats lines =
     Inr [''datetime_start'' \<mapsto> VDatetime ?start,
          ''datetime_end'' \<mapsto> VDatetime (?start + ?dur),
          ''duration'' \<mapsto> VInt ?dur]"
    unfolding hrmonitorapp_parse_stats_def data bind_Inr getitem_def date start duration
      option.case date_time_digits [OF dg(1) dg(2) v] duration_digits [OF dg(3)] add
    by simp
  then show ?thesis using datetime_of_in_year [OF v] by simp
qed

theorem parse_stats_digits_witness:
  "hrmonitorapp_parse_stats [''Date,01/02/23'', ''Start,10:00:00'', ''Duration,01:30:00''] =
     Inr [''datetime_start'' \<mapsto> VDatetime 63808250400,
          ''datetime_end'' \<mapsto> VDatetime 63808255800,
          ''duration'' \<mapsto> VInt 5400]
   \<and> days_before_year 2023 * 86400 = 63808128000
   \<and> days_before_year 2024 * 86400 = 63839664000"
proof -
  let ?lines = "[''Date,01/02/23'', ''Start,10:00:00'', ''Duration,01:30:00'']"
  let ?data = "dict_of [(''date'', ''01/02/23''), (''start'', ''10:00:00''), (''duration'', ''01:30:00'')]"
  have l: "lower ''Date'' = ''date''" "lower ''Start'' = ''start''"
    "lower ''Duration'' = ''duration''"
    by code_simp+
  have data: "stats_dict ?lines = Inr ?data"
    by (simp add: stats_dict_def bind_def item_def l)
  have n: "num2 (CHR ''0'') (CHR ''1'') = 1" "num2 (CHR ''0'') (CHR ''2'') = 2"
    "num2 (CHR ''2'') (CHR ''3'') = 23" "num2 (CHR ''1'') (CHR ''0'') = 10"
    "num2 (CHR ''0'') (CHR ''0'') = 0" "num2 (CHR ''3'') (CHR ''0'') = 30"
    by (simp_all add: num2_def digit_val_def)
  have v: "valid_datetime 2023 1 2 10 0 0"
    by (simp add: valid_datetime_def days_in_month_def)
  have e: "datetime_of 2023 1 2 10 0 0 = 63808250400"
    "days_before_year 2023 = 738520" "days_before_year 2024 = 738885"
    by (simp_all add: datetime_of_def ymd2ord_def days_before_year_def days_before_month_def
        is_leap_def)
  show ?thesis
    using parse_stats_digits [where lines = ?lines and data = ?data,
        of "CHR ''0''" "CHR ''1''" "CHR ''0''" "CHR ''2''" "CHR ''2''" "CHR ''3''"
           "CHR ''1''" "CHR ''0''" "CHR ''0''" "CHR ''0''" "CHR ''0''" "CHR ''0''"
           "CHR ''0''" "CHR ''1''" "CHR ''3''" "CHR ''0''" "CHR ''0''" "CHR ''0''"]
      data v e
    by (simp add: n dict_of_def is_digit_def)
qed

section \<open>The scan of an HRMonitorApp file\<close>

lemma get_lines_until_blank_all:
  "list_all P ls \<Longrightarrow> list_all P (snd (get_lines_until_blank ls))"
  by (induction ls) (auto split: prod.splits)

lemma scan_no_history:
  "list_all (\<lambda>line. strip line \<noteq> ''{History}'') ls \<Longrightarrow>
   hrmonitorapp_scan np ls st = Inr st' \<Longrightarrow> snd st = None \<Longrightarrow> snd st' = None"
proof (induction np ls st rule: hrmonitorapp_scan.induct)
  case (1 np st)
  then show ?case by simp
next
  case (2 np line ls st)
  have rest: "list_all (\<lambda>line. strip line \<noteq> ''{History}'') (snd (get_lines_until_blank ls))"
    using "2.prems"(1) by (simp add: get_lines_until_blank_all)
  show ?case
  proof (cases "strip line = ''{Statistics}''")
    case True
    then show ?thesis using "2.IH"(1) "2.prems" rest
      by (auto split: sum.splits)
  next
    case False
    then show ?thesis using "2.IH"(3) "2.prems" by auto
  qed
qed

lemma parse_stats_dom:
  "hrmonitorapp_parse_stats lines = Inr stats \<Longrightarrow>
     dom stats = {''datetime_start'', ''datetime_end'', ''duration''}"
  by (auto simp: hrmonitorapp_parse_stats_def bind_eq_Inr split: if_splits)

lemma scan_dom:
  "hrmonitorapp_scan np ls st = Inr st' \<Longrightarrow>
   {''datetime_start'', ''datetime_end'', ''duration''} \<subseteq> dom (fst st) \<Longrightarrow>
   dom (fst st') = dom (fst st)"
proof (induction np ls st rule: hrmonitorapp_scan.induct)
  case (1 np st)
  then show ?case by simp
next
  case (2 np line ls st)
  show ?case
  proof (cases "strip line = ''{Statistics}''")
    case True
    then obtain stats where s: "hrmonitorapp_parse_stats (fst (get_lines_until_blank ls)) = Inr stats"
      and r: "hrmonitorapp_scan np (snd (get_lines_until_blank ls)) (fst st ++ stats, snd st) = Inr st'"
      using "2.prems"(1) by (auto split: sum.splits)
    have d: "dom (fst st ++ stats) = dom (fst st)"
      using parse_stats_dom [OF s] "2.prems"(2) by auto
    show ?thesis using "2.IH"(1) [OF True s r] d "2.prems"(2) by simp
  next
    case False
    note nostat = this
    show ?thesis
    proof (cases "strip line = ''{History}''")
      case True
      then obtain recs where s: "hrmonitorapp_parse_recordings np (fst (get_lines_until_blank ls)) = Inr recs"
        and r: "hrmonitorapp_scan np (snd (get_lines_until_blank ls)) (fst st, Some recs) = Inr st'"
        using "2.prems"(1) nostat by (auto split: sum.splits)
      show ?thesis using "2.IH"(2) [OF nostat True s r] "2.prems"(2) by simp
    next
      case False
      then show ?thesis using "2.IH"(3) [OF nostat False] "2.prems" nostat by simp
    qed
  qed
qed

section \<open>Facts about \<^verbatim>\<open>load_fit\<close>\<close>

lemma getitem_eq_Inr: "getitem d k = Inr v \<longleftrightarrow> d k = Some v"
  by (simp add: getitem_def split: option.splits)

lemma load_fit_Inr:
  assumes "load_fit np messages = Inr (meta, recordings)"
  obtains data_sport name sport sub_sport data_file_id device_manufacturer device_model
    datetimes heartrates timestamps time_start time_end duration distances distance where
    "item (get_messages messages ''sport'') 0 = Inr data_sport"
    "getitem data_sport ''name'' = Inr name"
    "getitem data_sport ''sport'' = Inr sport"
    "getitem data_sport ''sub_sport'' = Inr sub_sport"
    "item (get_messages messages ''file_id'') 0 = Inr data_file_id"
    "getitem data_file_id ''manufacturer'' = Inr device_manufacturer"
    "(if device_manufacturer = VStr ''garmin''
      then getitem data_file_id ''garmin_product'' else Inr VNone) = Inr device_model"
    "scan_events (get_messages messages ''event'') (VNone, VNone) = Inr datetimes"
    "(case recordings ''heart_rate'' of
        None \<Rightarrow> Inr (VNone, VNone)
      | Some heartrate \<Rightarrow>
          bind (nanmean_int np heartrate) (\<lambda>heartrate_mean.
          bind (nanmedian_int np heartrate) (\<lambda>heartrate_median.
          Inr (VInt heartrate_mean, VInt heartrate_median)))) = Inr heartrates"
    "getitem recordings ''timestamp'' = Inr timestamps"
    "item timestamps 0 = Inr time_start"
    "last_item timestamps = Inr time_end"
    "timedelta_seconds np time_start time_end = Inr duration"
    "getitem recordings ''distance'' = Inr distances"
    "last_item distances = Inr distance"
    "recordings = from_records (get_messages messages ''record'')"
    "meta = [''device_manufacturer'' \<mapsto> device_manufacturer,
            ''device_model'' \<mapsto> device_model,
            ''datetime_start'' \<mapsto> fst datetimes,
            ''datetime_end'' \<mapsto> snd datetimes,
            ''name'' \<mapsto> name,
            ''sport'' \<mapsto> sport,
            ''sub_sport'' \<mapsto> sub_sport,
            ''duration'' \<mapsto> VInt duration,
            ''distance'' \<mapsto> distance,
            ''heartrate_mean'' \<mapsto> fst heartrates,
            ''heartrate_median'' \<mapsto> snd heartrates]"
proof -
  from assms show ?thesis
    unfolding load_fit_def Let_def bind_eq_Inr
    apply (elim exE conjE)
    apply (simp only: sum.inject prod.inject)
    apply (elim conjE)
    apply (rule that)
    apply assumption+
    apply (rule sym, assumption)+
    done
qed

lemma scan_event_start:
  assumes "scan_event data_event st = Inr st1"
    and "data_event ''event'' = Some (VStr ''timer'')"
    and "data_event ''event_type'' = Some (VStr ''start'')"
  shows "data_event ''timestamp'' = Some (fst st1) \<and> snd st1 = snd st"
  using assms by (auto simp: scan_event_def bind_def getitem_def split: option.splits)

lemma scan_event_stop:
  assumes "scan_event data_event st = Inr st1"
    and "data_event ''event'' = Some (VStr ''timer'')"
    and "data_event ''event_type'' = Some (VStr ''stop_all'')"
  shows "data_event ''timestamp'' = Some (snd st1) \<and> fst st1 = fst st"
  using assms by (auto simp: scan_event_def bind_def getitem_def split: option.splits)

lemma scan_event_other:
  assumes "scan_event data_event st = Inr st1"
    and "\<not> (data_event ''event'' = Some (VStr ''timer'')
          \<and> (data_event ''event_type'' = Some (VStr ''start'')
              \<or> data_event ''event_type'' = Some (VStr ''stop_all'')))"
  shows "st1 = st"
  using assms
  by (auto simp: scan_event_def bind_def getitem_def split: option.splits if_splits)

lemma timer_events_Cons:
  "timer_events k (e # es) =
     (if e ''event'' = Some (VStr ''timer'') \<and> e ''event_type'' = Some (VStr k)
      then e # timer_events k es else timer_events k es)"
  by (simp add: timer_events_def)

lemma scan_events_last:
  "scan_events events st = Inr st' \<Longrightarrow>
     Some (fst st') = (if timer_events ''start'' events = [] then Some (fst st)
                       else last (timer_events ''start'' events) ''timestamp'')
   \<and> Some (snd st') = (if timer_events ''stop_all'' events = [] then Some (snd st)
                       else last (timer_events ''stop_all'' events) ''timestamp'')"
proof (induction events arbitrary: st)
  case Nil
  then show ?case by (simp add: timer_events_def)
next
  case (Cons e events)
  from Cons.prems obtain st1 where
    step: "scan_event e st = Inr st1" and rest: "scan_events events st1 = Inr st'"
    by (auto split: sum.splits)
  note IH = Cons.IH [OF rest]
  consider
    (start) "e ''event'' = Some (VStr ''timer'')" "e ''event_type'' = Some (VStr ''start'')"
  | (stop) "e ''event'' = Some (VStr ''timer'')" "e ''event_type'' = Some (VStr ''stop_all'')"
  | (other) "\<not> (e ''event'' = Some (VStr ''timer'')
          \<and> (e ''event_type'' = Some (VStr ''start'') \<or> e ''event_type'' = Some (VStr ''stop_all'')))"
    by blast
  then show ?case
  proof cases
    case start
    have ne: "e ''event_type'' \<noteq> Some (VStr ''stop_all'')" using start(2) by simp
    show ?thesis
      using scan_event_start [OF step start] IH start ne
      by (simp add: timer_events_Cons)
  next
    case stop
    have ne: "e ''event_type'' \<noteq> Some (VStr ''start'')" using stop(2) by simp
    show ?thesis
      using scan_event_stop [OF step stop] IH stop ne
      by (simp add: timer_events_Cons)
  next
    case other
    have "st1 = st" using scan_event_other [OF step other] .
    then show ?thesis using IH other by (auto simp: timer_events_Cons)
  qed
qed

text \<open>
  C2, as the code has it. The loop assigns on every matching event, so the last
  event with \<^verbatim>\<open>event == "timer"\<close> and \<^verbatim>\<open>event_type == "start"\<close> determines
  \<^verbatim>\<open>datetime_start\<close>, and the last one with \<^verbatim>\<open>event_type == "stop_all"\<close>
  determines \<^verbatim>\<open>datetime_end\<close>: a later matching event overwrites the value an
  earlier one has set. Without a matching event the value stays \<^verbatim>\<open>None\<close>.
\<close>

theorem load_fit_last_timer_event:
  assumes "load_fit np messages = Inr (meta, recordings)"
  shows "meta ''datetime_start'' =
       (if timer_events ''start'' (get_messages messages ''event'') = [] then Some VNone
        else last (timer_events ''start'' (get_messages messages ''event'')) ''timestamp'')
     \<and> meta ''datetime_end'' =
       (if timer_events ''stop_all'' (get_messages messages ''event'') = [] then Some VNone
        else last (timer_events ''stop_all'' (get_messages messages ''event'')) ''timestamp'')"
proof -
  from assms obtain datetimes where
    s: "scan_events (get_messages messages ''event'') (VNone, VNone) = Inr datetimes"
    and m: "meta ''datetime_start'' = Some (fst datetimes)" "meta ''datetime_end'' = Some (snd datetimes)"
    by (rule load_fit_Inr) simp
  show ?thesis using scan_events_last [OF s] m by simp
qed

lemma get_messages_none:
  "list_all (\<lambda>m. msg_name m \<noteq> t) messages \<Longrightarrow> get_messages messages t = []"
  by (induction messages) (simp_all add: get_messages_def)

lemma from_records_Nil: "from_records [] = Map.empty"
  by (simp add: from_records_def)

lemma item_0_eq_Inr: "item xs 0 = Inr x \<longleftrightarrow> (\<exists>rest. xs = x # rest)"
  by (cases xs) (simp_all add: item_def)

text \<open>
  C7. Without a sport message \<^verbatim>\<open>data["sport"][0]\<close> raises \<^verbatim>\<open>IndexError\<close>, whatever
  else the file holds, and nothing is returned; when \<^verbatim>\<open>load_fit\<close> returns, the
  name, sport and sub-sport are the fields of the first sport message.
\<close>

theorem load_fit_sport:
  "(list_all (\<lambda>m. msg_name m \<noteq> ''sport'') messages \<longrightarrow> load_fit np messages = Inl IndexError)
   \<and> (load_fit np messages = Inr (meta, recordings) \<longrightarrow>
        (\<exists>data_sport rest. get_messages messages ''sport'' = data_sport # rest
           \<and> meta ''name'' = data_sport ''name''
           \<and> meta ''sport'' = data_sport ''sport''
           \<and> meta ''sub_sport'' = data_sport ''sub_sport''))"
proof (intro conjI impI)
  assume "list_all (\<lambda>m. msg_name m \<noteq> ''sport'') messages"
  then have "get_messages messages ''sport'' = []" by (rule get_messages_none)
  then show "load_fit np messages = Inl IndexError"
    by (simp add: load_fit_def Let_def item_def bind_Inl)
next
  assume "load_fit np messages = Inr (meta, recordings)"
  then obtain data_sport name sport sub_sport where
    d: "item (get_messages messages ''sport'') 0 = Inr data_sport"
    and g: "getitem data_sport ''name'' = Inr name" "getitem data_sport ''sport'' = Inr sport"
      "getitem data_sport ''sub_sport'' = Inr sub_sport"
    and m: "meta ''name'' = Some name" "meta ''sport'' = Some sport"
      "meta ''sub_sport'' = Some sub_sport"
    by (rule load_fit_Inr) simp
  from d obtain rest where "get_messages messages ''sport'' = data_sport # rest"
    by (auto simp: item_0_eq_Inr)
  then show "\<exists>data_sport rest. get_messages messages ''sport'' = data_sport # rest
           \<and> meta ''name'' = data_sport ''name''
           \<and> meta ''sport'' = data_sport ''sport''
           \<and> meta ''sub_sport'' = data_sport ''sub_sport''"
    using g m by (simp add: getitem_eq_Inr)
qed

lemma fit_activity_messages:
  "get_messages fit_activity ''sport'' =
     [dict_of [(''name'', VStr ''Run''), (''sport'', VStr ''running''), (''sub_sport'', VStr ''generic'')]]"
  "get_messages fit_activity ''file_id'' =
     [dict_of [(''manufacturer'', VStr ''garmin''), (''garmin_product'', VStr ''fr945'')]]"
  "get_messages fit_activity ''event'' =
     [dict_of [(''event'', VStr ''timer''), (''event_type'', VStr ''start''), (''timestamp'', VDatetime 100)],
      dict_of [(''event'', VStr ''timer''), (''event_type'', VStr ''stop_all''), (''timestamp'', VDatetime 160)],
      dict_of [(''event'', VStr ''timer''), (''event_type'', VStr ''start''), (''timestamp'', VDatetime 200)],
      dict_of [(''event'', VStr ''timer''), (''event_type'', VStr ''stop_all''), (''timestamp'', VDatetime 260)]]"
  "get_messages fit_activity ''record'' =
     [dict_of [(''timestamp'', VDatetime 100), (''distance'', VInt 0)],
      dict_of [(''timestamp'', VDatetime 260), (''distance'', VInt 50)]]"
  by (simp_all add: get_messages_def fit_activity_def fit_sport_def fit_file_id_def
      fit_event_def fit_record_def)

lemma fit_activity_recordings:
  "from_records (get_messages fit_activity ''record'') ''heart_rate'' = None"
  "from_records (get_messages fit_activity ''record'') ''timestamp''
     = Some [VDatetime 100, VDatetime 260]"
  "from_records (get_messages fit_activity ''record'') ''distance'' = Some [VInt 0, VInt 50]"
  by (simp_all add: fit_activity_messages from_records_def dict_of_def)

lemma fit_activity_events:
  "scan_events (get_messages fit_activity ''event'') (VNone, VNone)
     = Inr (VDatetime 200, VDatetime 260)"
  by (simp add: fit_activity_messages scan_event_def bind_def getitem_def dict_of_def)

lemma load_fit_example:
  "load_fit np_example fit_activity =
     Inr ([''device_manufacturer'' \<mapsto> VStr ''garmin'',
           ''device_model'' \<mapsto> VStr ''fr945'',
           ''datetime_start'' \<mapsto> VDatetime 200,
           ''datetime_end'' \<mapsto> VDatetime 260,
           ''name'' \<mapsto> VStr ''Run'',
           ''sport'' \<mapsto> VStr ''running'',
           ''sub_sport'' \<mapsto> VStr ''generic'',
           ''duration'' \<mapsto> VInt 160,
           ''distance'' \<mapsto> VInt 50,
           ''heartrate_mean'' \<mapsto> VNone,
           ''heartrate_median'' \<mapsto> VNone],
          from_records (get_messages fit_activity ''record''))"
  unfolding load_fit_def Let_def fit_activity_events
  by (simp add: fit_activity_messages(1,2) fit_activity_recordings bind_def item_def
      last_item_def getitem_def dict_of_def np_example_def)

lemma fit_activity_timer_events:
  "timer_events ''start'' (get_messages fit_activity ''event'') =
     [dict_of [(''event'', VStr ''timer''), (''event_type'', VStr ''start''), (''timestamp'', VDatetime 100)],
      dict_of [(''event'', VStr ''timer''), (''event_type'', VStr ''start''), (''timestamp'', VDatetime 200)]]"
  "timer_events ''stop_all'' (get_messages fit_activity ''event'') =
     [dict_of [(''event'', VStr ''timer''), (''event_type'', VStr ''stop_all''), (''timestamp'', VDatetime 160)],
      dict_of [(''event'', VStr ''timer''), (''event_type'', VStr ''stop_all''), (''timestamp'', VDatetime 260)]]"
  by (simp_all add: fit_activity_messages timer_events_def dict_of_def)

theorem load_fit_last_timer_event_witness:
  "fst (projr (load_fit np_example fit_activity)) ''datetime_start'' =
     last (timer_events ''start'' (get_messages fit_activity ''event'')) ''timestamp''
   \<and> fst (projr (load_fit np_example fit_activity)) ''datetime_end'' =
     last (timer_events ''stop_all'' (get_messages fit_activity ''event'')) ''timestamp''
   \<and> last (timer_events ''start'' (get_messages fit_activity ''event'')) ''timestamp''
     = Some (VDatetime 200)
   \<and> last (timer_events ''stop_all'' (get_messages fit_activity ''event'')) ''timestamp''
     = Some (VDatetime 260)"
  using load_fit_last_timer_event [OF load_fit_example]
  by (simp add: load_fit_example fit_activity_timer_events dict_of_def)

text \<open>
  C2 as stated fails. The example activity has two timer start events, at 100
  and at 200, and two stop events, at 160 and at 260; the first of each kind does
  not win.
\<close>

theorem first_timer_event_overwritten:
  "\<not> isl (load_fit np_example fit_activity)
   \<and> hd (timer_events ''start'' (get_messages fit_activity ''event'')) ''timestamp''
     = Some (VDatetime 100)
   \<and> fst (projr (load_fit np_example fit_activity)) ''datetime_start'' = Some (VDatetime 200)
   \<and> hd (timer_events ''stop_all'' (get_messages fit_activity ''event'')) ''timestamp''
     = Some (VDatetime 160)
   \<and> fst (projr (load_fit np_example fit_activity)) ''datetime_end'' = Some (VDatetime 260)"
  by (simp add: load_fit_example fit_activity_timer_events dict_of_def)

theorem load_fit_sport_witness:
  "load_fit np_example [fit_file_id, fit_record 100 0] = Inl IndexError
   \<and> fst (projr (load_fit np_example fit_activity)) ''name'' = Some (VStr ''Run'')
   \<and> fst (projr (load_fit np_example fit_activity)) ''sport'' = Some (VStr ''running'')
   \<and> fst (projr (load_fit np_example fit_activity)) ''sub_sport'' = Some (VStr ''generic'')"
proof -
  have "list_all (\<lambda>m. msg_name m \<noteq> ''sport'') [fit_file_id, fit_record 100 0]"
    by (simp add: fit_file_id_def fit_record_def)
  then have a: "load_fit np_example [fit_file_id, fit_record 100 0] = Inl IndexError"
    using load_fit_sport [of "[fit_file_id, fit_record 100 0]" np_example] by simp
  have b: "\<exists>data_sport rest. get_messages fit_activity ''sport'' = data_sport # rest
      \<and> fst (projr (load_fit np_example fit_activity)) ''name'' = data_sport ''name''
      \<and> fst (projr (load_fit np_example fit_activity)) ''sport'' = data_sport ''sport''
      \<and> fst (projr (load_fit np_example fit_activity)) ''sub_sport'' = data_sport ''sub_sport''"
    using conjunct2 [OF load_fit_sport, rule_format, OF load_fit_example]
    by (simp add: load_fit_example)
  show ?thesis using a b by (auto simp: fit_activity_messages dict_of_def)
qed

section \<open>Missing records and missing channels\<close>

lemma not_isl_iff: "\<not> isl r \<longleftrightarrow> (\<exists>x. r = Inr x)"
  by (cases r) simp_all

lemma load_fit_after_header:
  fixes np :: "'f numpy"
  assumes "fit_header_ok messages"
  obtains meta_of where
    "load_fit np messages =
       bind (case from_records (get_messages messages ''record'') ''heart_rate'' of
               None \<Rightarrow> Inr (VNone :: 'f py_value, VNone :: 'f py_value)
             | Some heartrate \<Rightarrow>
                 bind (nanmean_int np heartrate) (\<lambda>heartrate_mean.
                 bind (nanmedian_int np heartrate) (\<lambda>heartrate_median.
                 Inr (VInt heartrate_mean, VInt heartrate_median)))) (\<lambda>heartrates.
       bind (getitem (from_records (get_messages messages ''record'')) ''timestamp'') (\<lambda>timestamps.
       bind (item timestamps 0) (\<lambda>time_start.
       bind (last_item timestamps) (\<lambda>time_end.
       bind (timedelta_seconds np time_start time_end) (\<lambda>duration.
       bind (getitem (from_records (get_messages messages ''record'')) ''distance'') (\<lambda>distances.
       bind (last_item distances) (\<lambda>distance.
       Inr (meta_of heartrates duration distance,
            from_records (get_messages messages ''record'')))))))))"
proof -
  from assms obtain data_sport rest name sport sub_sport where
    s: "get_messages messages ''sport'' = data_sport # rest"
    "data_sport ''name'' = Some name" "data_sport ''sport'' = Some sport"
    "data_sport ''sub_sport'' = Some sub_sport"
    by (auto simp: fit_header_ok_def split: list.splits)
  from assms obtain data_file_id rest' device_manufacturer where
    f: "get_messages messages ''file_id'' = data_file_id # rest'"
    "data_file_id ''manufacturer'' = Some device_manufacturer"
    "device_manufacturer \<noteq> VStr ''garmin'' \<or> data_file_id ''garmin_product'' \<noteq> None"
    by (auto simp: fit_header_ok_def split: list.splits)
  have "\<exists>device_model. (if device_manufacturer = VStr ''garmin''
         then getitem data_file_id ''garmin_product'' else Inr VNone) = Inr device_model"
    using f(3) by (cases "data_file_id ''garmin_product''") (auto simp: getitem_def)
  then obtain device_model where
    g: "(if device_manufacturer = VStr ''garmin''
         then getitem data_file_id ''garmin_product'' else Inr VNone) = Inr device_model"
    by blast
  from assms obtain datetimes where
    e: "scan_events (get_messages messages ''event'') (VNone, VNone) = Inr datetimes"
    by (auto simp: fit_header_ok_def not_isl_iff)
  have i: "item (data_sport # rest) 0 = Inr data_sport" "item (data_file_id # rest') 0 = Inr data_file_id"
    by (simp_all add: item_def)
  have gi: "getitem data_sport ''name'' = Inr name" "getitem data_sport ''sport'' = Inr sport"
    "getitem data_sport ''sub_sport'' = Inr sub_sport"
    "getitem data_file_id ''manufacturer'' = Inr device_manufacturer"
    using s f by (simp_all add: getitem_def)
  show ?thesis
    by (rule that [of "\<lambda>heartrates duration distance.
          [''device_manufacturer'' \<mapsto> device_manufacturer,
           ''device_model'' \<mapsto> device_model,
           ''datetime_start'' \<mapsto> fst datetimes,
           ''datetime_end'' \<mapsto> snd datetimes,
           ''name'' \<mapsto> name,
           ''sport'' \<mapsto> sport,
           ''sub_sport'' \<mapsto> sub_sport,
           ''duration'' \<mapsto> VInt duration,
           ''distance'' \<mapsto> distance,
           ''heartrate_mean'' \<mapsto> fst heartrates,
           ''heartrate_median'' \<mapsto> snd heartrates]"])
      (simp only: load_fit_def Let_def s(1) f(1) i gi g e bind_Inr)
qed

lemma load_fit_not_Inr_iff: "isl (load_fit np messages) \<longleftrightarrow> (\<forall>r. load_fit np messages \<noteq> Inr r)"
  by (cases "load_fit np messages") simp_all

lemma from_records_no_column:
  assumes "list_all (\<lambda>m. c \<notin> fst ` set (msg_fields m))
      (filter (\<lambda>m. msg_name m = ''record'') messages)"
  shows "from_records (get_messages messages ''record'') c = None"
proof -
  have a: "dict_of (msg_fields m) c = None"
    if "m \<in> set messages" "msg_name m = ''record''" for m
    using assms that by (simp add: list_all_iff dict_of_def map_of_eq_None_iff)
  show ?thesis using a by (auto simp: from_records_def get_messages_def list_ex_iff)
qed

text \<open>
  C5. A FIT file without record messages gives an empty recordings table, so
  \<^verbatim>\<open>load_fit\<close> never returns a result: when the statements before it succeed,
  the lookup \<^verbatim>\<open>recordings["timestamp"]\<close> that starts the derivation of the
  duration raises \<^verbatim>\<open>KeyError\<close>.
\<close>

theorem load_fit_no_records:
  fixes np :: "'f numpy"
  assumes "list_all (\<lambda>m. msg_name m \<noteq> ''record'') messages"
  shows "isl (load_fit np messages)
    \<and> (fit_header_ok messages \<longrightarrow> load_fit np messages = Inl (KeyError ''timestamp''))"
proof
  have rec: "from_records (get_messages messages ''record'') = Map.empty"
    using get_messages_none [OF assms] by (simp add: from_records_Nil)
  show "isl (load_fit np messages)"
    unfolding load_fit_not_Inr_iff
  proof (intro allI notI)
    fix r assume "load_fit np messages = Inr r"
    then obtain meta recordings where "load_fit np messages = Inr (meta, recordings)"
      by (cases r) simp
    then obtain timestamps where "recordings = from_records (get_messages messages ''record'')"
      "getitem recordings ''timestamp'' = Inr timestamps"
      by (rule load_fit_Inr)
    then show False using rec by (simp add: getitem_def)
  qed
  show "fit_header_ok messages \<longrightarrow> load_fit np messages = Inl (KeyError ''timestamp'')"
  proof
    assume "fit_header_ok messages"
    then obtain meta_of where l: "load_fit np messages =
       bind (case from_records (get_messages messages ''record'') ''heart_rate'' of
               None \<Rightarrow> Inr (VNone :: 'f py_value, VNone :: 'f py_value)
             | Some heartrate \<Rightarrow>
                 bind (nanmean_int np heartrate) (\<lambda>heartrate_mean.
                 bind (nanmedian_int np heartrate) (\<lambda>heartrate_median.
                 Inr (VInt heartrate_mean, VInt heartrate_median)))) (\<lambda>heartrates.
       bind (getitem (from_records (get_messages messages ''record'')) ''timestamp'') (\<lambda>timestamps.
       bind (item timestamps 0) (\<lambda>time_start.
       bind (last_item timestamps) (\<lambda>time_end.
       bind (timedelta_seconds np time_start time_end) (\<lambda>duration.
       bind (getitem (from_records (get_messages messages ''record'')) ''distance'') (\<lambda>distances.
       bind (last_item distances) (\<lambda>distance.
       Inr (meta_of heartrates duration distance,
            from_records (get_messages messages ''record'')))))))))"
      by (rule load_fit_after_header)
    show "load_fit np messages = Inl (KeyError ''timestamp'')"
      unfolding l rec by (simp add: bind_def getitem_def)
  qed
qed

theorem load_fit_no_records_witness:
  "load_fit np_example [fit_file_id, fit_sport, fit_event ''start'' 100]
     = Inl (KeyError ''timestamp'')"
proof -
  let ?ms = "[fit_file_id, fit_sport, fit_event ''start'' 100]"
  have a: "list_all (\<lambda>m. msg_name m \<noteq> ''record'') ?ms"
    by (simp add: fit_file_id_def fit_sport_def fit_event_def)
  have h: "fit_header_ok ?ms"
    by (simp add: fit_header_ok_def get_messages_def fit_file_id_def fit_sport_def
        fit_event_def scan_event_def bind_def getitem_def dict_of_def)
  show ?thesis using load_fit_no_records [OF a, of np_example] h by simp
qed

lemma from_records_Some_nonempty: "from_records rows c = Some col \<Longrightarrow> col \<noteq> []"
  by (cases rows) (auto simp: from_records_def split: if_splits)

text \<open>
  C10. When no record message has a \<^verbatim>\<open>distance\<close> field, the recordings table has
  no such column and \<^verbatim>\<open>load_fit\<close> never returns a result: when everything up to
  the duration succeeds, \<^verbatim>\<open>recordings["distance"]\<close> raises \<^verbatim>\<open>KeyError\<close>.
\<close>

theorem load_fit_no_distance:
  fixes np :: "'f numpy"
  assumes "list_all (\<lambda>m. ''distance'' \<notin> fst ` set (msg_fields m))
      (filter (\<lambda>m. msg_name m = ''record'') messages)"
  shows "isl (load_fit np messages)
    \<and> (fit_header_ok messages \<and> fit_duration_ok np messages
         \<longrightarrow> load_fit np messages = Inl (KeyError ''distance''))"
proof
  have rec: "from_records (get_messages messages ''record'') ''distance'' = None"
    using assms by (rule from_records_no_column)
  show "isl (load_fit np messages)"
    unfolding load_fit_not_Inr_iff
  proof (intro allI notI)
    fix r assume "load_fit np messages = Inr r"
    then obtain meta recordings where "load_fit np messages = Inr (meta, recordings)"
      by (cases r) simp
    then obtain distances where "recordings = from_records (get_messages messages ''record'')"
      "getitem recordings ''distance'' = Inr distances"
      by (rule load_fit_Inr)
    then show False using rec by (simp add: getitem_def)
  qed
  show "fit_header_ok messages \<and> fit_duration_ok np messages
      \<longrightarrow> load_fit np messages = Inl (KeyError ''distance'')"
  proof
    assume ok: "fit_header_ok messages \<and> fit_duration_ok np messages"
    then obtain meta_of where l: "load_fit np messages =
       bind (case from_records (get_messages messages ''record'') ''heart_rate'' of
               None \<Rightarrow> Inr (VNone :: 'f py_value, VNone :: 'f py_value)
             | Some heartrate \<Rightarrow>
                 bind (nanmean_int np heartrate) (\<lambda>heartrate_mean.
                 bind (nanmedian_int np heartrate) (\<lambda>heartrate_median.
                 Inr (VInt heartrate_mean, VInt heartrate_median)))) (\<lambda>heartrates.
       bind (getitem (from_records (get_messages messages ''record'')) ''timestamp'') (\<lambda>timestamps.
       bind (item timestamps 0) (\<lambda>time_start.
       bind (last_item timestamps) (\<lambda>time_end.
       bind (timedelta_seconds np time_start time_end) (\<lambda>duration.
       bind (getitem (from_records (get_messages messages ''record'')) ''distance'') (\<lambda>distances.
       bind (last_item distances) (\<lambda>distance.
       Inr (meta_of heartrates duration distance,
            from_records (get_messages messages ''record'')))))))))"
      using load_fit_after_header [of messages np] by blast
    from ok obtain heartrates where
      h: "(case from_records (get_messages messages ''record'') ''heart_rate'' of
               None \<Rightarrow> Inr (VNone :: 'f py_value, VNone :: 'f py_value)
             | Some heartrate \<Rightarrow>
                 bind (nanmean_int np heartrate) (\<lambda>heartrate_mean.
                 bind (nanmedian_int np heartrate) (\<lambda>heartrate_median.
                 Inr (VInt heartrate_mean, VInt heartrate_median)))) = Inr heartrates"
      by (auto simp: fit_duration_ok_def Let_def not_isl_iff bind_def split: option.splits)
    from ok obtain timestamps duration where
      t: "from_records (get_messages messages ''record'') ''timestamp'' = Some timestamps"
      and d: "timedelta_seconds np (hd timestamps) (last timestamps) = Inr duration"
      by (auto simp: fit_duration_ok_def Let_def not_isl_iff split: option.splits)
    have ne: "timestamps \<noteq> []" using t by (rule from_records_Some_nonempty)
    have i: "getitem (from_records (get_messages messages ''record'')) ''timestamp'' = Inr timestamps"
      "item timestamps 0 = Inr (hd timestamps)" "last_item timestamps = Inr (last timestamps)"
      using t ne by (simp_all add: getitem_def item_def last_item_def hd_conv_nth)
    have g: "getitem (from_records (get_messages messages ''record'')) ''distance''
        = Inl (KeyError ''distance'')"
      using rec by (simp add: getitem_def)
    show "load_fit np messages = Inl (KeyError ''distance'')"
      by (simp only: l h i d g bind_Inr bind_Inl)
  qed
qed

theorem load_fit_no_distance_witness:
  "load_fit np_example
       [fit_file_id, fit_sport, Message ''record'' [(''timestamp'', VDatetime 100)]]
     = Inl (KeyError ''distance'')"
proof -
  let ?ms = "[fit_file_id, fit_sport, Message ''record'' [(''timestamp'', VDatetime 100)]]"
  have a: "list_all (\<lambda>m. ''distance'' \<notin> fst ` set (msg_fields m))
      (filter (\<lambda>m. msg_name m = ''record'') ?ms)"
    by (simp add: fit_file_id_def fit_sport_def)
  have h: "fit_header_ok ?ms"
    by (simp add: fit_header_ok_def get_messages_def fit_file_id_def fit_sport_def
        dict_of_def)
  have d: "fit_duration_ok np_example ?ms"
    by (simp add: fit_duration_ok_def get_messages_def fit_file_id_def fit_sport_def
        from_records_def dict_of_def np_example_def)
  show ?thesis using load_fit_no_distance [OF a, of np_example] h d by simp
qed

section \<open>Files without a history section, and the keys of the metadata\<close>

lemma stats_example_parts:
  "stats_dict [''Date,01/02/23'', ''Start,10:00:00'', ''Duration,01:30:00'']
     = Inr (dict_of [(''date'', ''01/02/23''), (''start'', ''10:00:00''),
         (''duration'', ''01:30:00'')])"
  "hrmonitorapp_date_time_to_datetime ''01/02/23'' ''10:00:00''
     = Inr (datetime_of 2023 1 2 10 0 0)"
  "hrmonitorapp_duration_to_seconds ''01:30:00'' = Inr 5400"
  "datetime_add_seconds (datetime_of 2023 1 2 10 0 0) 5400 = Inr (datetime_of 2023 1 2 11 30 0)"
proof -
  have l: "lower ''Date'' = ''date''" "lower ''Start'' = ''start''"
    "lower ''Duration'' = ''duration''"
    by code_simp+
  show "stats_dict [''Date,01/02/23'', ''Start,10:00:00'', ''Duration,01:30:00'']
     = Inr (dict_of [(''date'', ''01/02/23''), (''start'', ''10:00:00''),
         (''duration'', ''01:30:00'')])"
    by (simp add: stats_dict_def bind_def item_def l)
  show "hrmonitorapp_date_time_to_datetime ''01/02/23'' ''10:00:00''
     = Inr (datetime_of 2023 1 2 10 0 0)"
    by code_simp
  show "hrmonitorapp_duration_to_seconds ''01:30:00'' = Inr 5400"
    by code_simp
  show "datetime_add_seconds (datetime_of 2023 1 2 10 0 0) 5400
     = Inr (datetime_of 2023 1 2 11 30 0)"
    by code_simp
qed

lemma parse_stats_example:
  "hrmonitorapp_parse_stats [''Date,01/02/23'', ''Start,10:00:00'', ''Duration,01:30:00''] =
     Inr [''datetime_start'' \<mapsto> VDatetime (datetime_of 2023 1 2 10 0 0),
          ''datetime_end'' \<mapsto> VDatetime (datetime_of 2023 1 2 11 30 0),
          ''duration'' \<mapsto> VInt 5400]"
  unfolding hrmonitorapp_parse_stats_def stats_example_parts(1) bind_Inr
  by (simp add: getitem_def dict_of_def stats_example_parts(2-4) bind_Inr)

lemma hrm_statistics_section:
  "strip ''{Statistics}'' = ''{Statistics}''"
  "get_lines_until_blank [''Date,01/02/23'', ''Start,10:00:00'', ''Duration,01:30:00'', []]
     = ([''Date,01/02/23'', ''Start,10:00:00'', ''Duration,01:30:00''], [])"
  by code_simp+

lemma load_hrmonitorapp_no_history_example:
  "load_hrmonitorapp np hrm_statistics = Inl (UnboundLocalError ''recordings'')"
  by (simp add: load_hrmonitorapp_def Let_def hrm_statistics_def hrm_statistics_section
      parse_stats_example bind_def del: get_lines_until_blank.simps)

text \<open>
  C3 does not hold of the code. \<^verbatim>\<open>load_hrmonitorapp\<close> binds \<^verbatim>\<open>recordings\<close> only in
  the \<^verbatim>\<open>{History}\<close> branch, so for a file with no \<^verbatim>\<open>{History}\<close> line it never
  returns a pair: every such file ends in an error, and a file whose
  \<^verbatim>\<open>{Statistics}\<close> section is well formed ends in the \<^verbatim>\<open>UnboundLocalError\<close> of
  \<^verbatim>\<open>return data, recordings\<close>.
\<close>

theorem load_hrmonitorapp_without_history:
  assumes "list_all (\<lambda>line. strip line \<noteq> ''{History}'') file"
  shows "isl (load_hrmonitorapp np file)"
proof (cases "load_hrmonitorapp np file")
  case (Inl e)
  then show ?thesis by simp
next
  case (Inr r)
  then obtain st recordings where
    s: "hrmonitorapp_scan np file
         ([''file_hash'' \<mapsto> VNone,
           ''name'' \<mapsto> VNone, ''sport'' \<mapsto> VNone, ''sub_sport'' \<mapsto> VNone,
           ''workout'' \<mapsto> VNone,
           ''device_manufacturer'' \<mapsto> VNone, ''device_model'' \<mapsto> VNone,
           ''datetime_start'' \<mapsto> VNone, ''datetime_end'' \<mapsto> VNone,
           ''duration'' \<mapsto> VNone, ''distance'' \<mapsto> VNone,
           ''heartrate_mean'' \<mapsto> VNone, ''heartrate_median'' \<mapsto> VNone], None) = Inr st"
    and r: "snd st = Some recordings"
    by (auto simp: load_hrmonitorapp_def Let_def bind_eq_Inr split: option.splits)
  have "snd st = None" using scan_no_history [OF assms s] by simp
  then show ?thesis using r by simp
qed

theorem load_hrmonitorapp_without_history_witness:
  "list_all (\<lambda>line. strip line \<noteq> ''{History}'') hrm_statistics
   \<and> isl (load_hrmonitorapp np_example hrm_statistics)
   \<and> load_hrmonitorapp np_example hrm_statistics = Inl (UnboundLocalError ''recordings'')"
proof -
  have a: "list_all (\<lambda>line. strip line \<noteq> ''{History}'') hrm_statistics"
    unfolding hrm_statistics_def by code_simp
  show ?thesis
    using a load_hrmonitorapp_without_history [OF a, of np_example]
      load_hrmonitorapp_no_history_example [of np_example]
    by simp
qed

lemma load_fit_keys:
  assumes "load_fit np messages = Inr (meta, recordings)"
  shows "dom meta = {''device_manufacturer'', ''device_model'', ''datetime_start'',
     ''datetime_end'', ''name'', ''sport'', ''sub_sport'', ''duration'', ''distance'',
     ''heartrate_mean'', ''heartrate_median''}"
proof -
  from assms obtain a b c d e f g h i j k where
    "meta = [''device_manufacturer'' \<mapsto> a, ''device_model'' \<mapsto> b,
            ''datetime_start'' \<mapsto> c, ''datetime_end'' \<mapsto> d, ''name'' \<mapsto> e,
            ''sport'' \<mapsto> f, ''sub_sport'' \<mapsto> g, ''duration'' \<mapsto> h,
            ''distance'' \<mapsto> i, ''heartrate_mean'' \<mapsto> j, ''heartrate_median'' \<mapsto> k]"
    by (rule load_fit_Inr) blast
  then show ?thesis by auto
qed

lemma load_hrmonitorapp_keys:
  assumes "load_hrmonitorapp np file = Inr (meta, recordings)"
  shows "dom meta = {''file_hash'', ''name'', ''sport'', ''sub_sport'', ''workout'',
     ''device_manufacturer'', ''device_model'', ''datetime_start'', ''datetime_end'',
     ''duration'', ''distance'', ''heartrate_mean'', ''heartrate_median''}"
proof -
  let ?data = "[''file_hash'' \<mapsto> VNone,
           ''name'' \<mapsto> VNone, ''sport'' \<mapsto> VNone, ''sub_sport'' \<mapsto> VNone,
           ''workout'' \<mapsto> VNone,
           ''device_manufacturer'' \<mapsto> VNone, ''device_model'' \<mapsto> VNone,
           ''datetime_start'' \<mapsto> VNone, ''datetime_end'' \<mapsto> VNone,
           ''duration'' \<mapsto> VNone, ''distance'' \<mapsto> VNone,
           ''heartrate_mean'' \<mapsto> VNone, ''heartrate_median'' \<mapsto> VNone]"
  from assms obtain st where
    s: "hrmonitorapp_scan np file (?data, None) = Inr st" and m: "meta = fst st"
    by (auto simp: load_hrmonitorapp_def Let_def bind_eq_Inr split: option.splits)
  have "dom (fst st) = dom ?data"
    using scan_dom [OF s] by simp
  then show ?thesis using m by auto
qed

lemma ACTIVITY_SCHEMA_keys:
  "dom ACTIVITY_SCHEMA = {''file_hash'', ''name'', ''sport'', ''sub_sport'', ''workout'',
     ''device_manufacturer'', ''device_model'', ''datetime_start'', ''datetime_end'',
     ''duration'', ''distance'', ''heartrate_mean'', ''heartrate_median''}"
  by (auto simp: ACTIVITY_SCHEMA_def)

section \<open>Format detection, RR intervals and the metadata schema\<close>

lemma example_paths:
  "lower (path_suffix ''activity.fit'') = ''.fit''"
  "lower (path_suffix ''Morning.FIT'') = ''.fit''"
  "lower (path_suffix ''data/user_hr_data_7.CSV'') = ''.csv''"
  "path_name ''data/user_hr_data_7.CSV'' = ''user_hr_data_7.CSV''"
  "lower (path_suffix ''data/rr.csv'') = ''.csv''"
  "path_name ''data/rr.csv'' = ''rr.csv''"
  "path_str ''data/rr.csv'' = ''data/rr.csv''"
  "lower (path_suffix ''notes.txt'') = ''.txt''"
  "path_str ''notes.txt'' = ''notes.txt''"
  by code_simp+

text \<open>
  C6. \<^verbatim>\<open>load\<close> runs the FIT pipeline exactly for the paths whose suffix is
  \<^verbatim>\<open>.fit\<close> in any letter case, the HRMonitorApp pipeline exactly for the paths
  whose suffix is \<^verbatim>\<open>.csv\<close> in any letter case and whose name starts with
  \<^verbatim>\<open>user_hr_data_\<close>, and raises \<^verbatim>\<open>ValueError\<close> with the path in its message for
  every other path; a \<^verbatim>\<open>.csv\<close> path without the prefix is among the last.
\<close>

theorem load_dispatch:
  "(lower (path_suffix path) = ''.fit''
      \<longrightarrow> load np path messages file = load_fit np messages)
   \<and> (lower (path_suffix path) = ''.csv'' \<and> startswith (path_name path) ''user_hr_data_''
      \<longrightarrow> load np path messages file = load_hrmonitorapp np file)
   \<and> (lower (path_suffix path) \<noteq> ''.fit''
       \<and> \<not> (lower (path_suffix path) = ''.csv'' \<and> startswith (path_name path) ''user_hr_data_'')
      \<longrightarrow> load np path messages file
          = Inl (ValueError (''unsupported activity file format '' @ path_str path)))"
  by (auto simp: load_def is_hrmonitorapp_activity_def)

theorem load_dispatch_witness:
  "load np_example ''Morning.FIT'' fit_activity hrm_statistics = load_fit np_example fit_activity
   \<and> load np_example ''data/user_hr_data_7.CSV'' fit_activity hrm_statistics
       = load_hrmonitorapp np_example hrm_statistics
   \<and> load np_example ''data/rr.csv'' fit_activity hrm_statistics
       = Inl (ValueError ''unsupported activity file format data/rr.csv'')
   \<and> load np_example ''notes.txt'' fit_activity hrm_statistics
       = Inl (ValueError ''unsupported activity file format notes.txt'')"
proof -
  have p: "startswith ''user_hr_data_7.CSV'' ''user_hr_data_''"
    "\<not> startswith ''rr.csv'' ''user_hr_data_''"
    by (simp_all add: startswith_def)
  show ?thesis
    using load_dispatch [of "''Morning.FIT''" np_example fit_activity hrm_statistics]
      load_dispatch [of "''data/user_hr_data_7.CSV''" np_example fit_activity hrm_statistics]
      load_dispatch [of "''data/rr.csv''" np_example fit_activity hrm_statistics]
      load_dispatch [of "''notes.txt''" np_example fit_activity hrm_statistics]
    by (simp add: example_paths p)
qed

lemma loadtxt_rows_same_length:
  "list_all (\<lambda>row. length row = n) rows \<Longrightarrow>
   loadtxt_rows np n rows = map_err (map_err (loadtxt_float np)) rows"
  by (induction rows) (simp_all add: bind_def split: sum.splits)

lemma loadtxt_rows_other_length:
  "\<not> list_all (\<lambda>row. length row = n) rows \<Longrightarrow> isl (loadtxt_rows np n rows)"
  by (induction rows) (auto simp: bind_def split: sum.splits)

lemma loadtxt_rows_eq_Inr:
  "loadtxt_rows np n rows = Inr xss \<longleftrightarrow>
     list_all (\<lambda>row. length row = n) rows
     \<and> map_err (map_err (loadtxt_float np)) rows = Inr xss"
proof (cases "list_all (\<lambda>row. length row = n) rows")
  case True
  then show ?thesis by (simp add: loadtxt_rows_same_length)
next
  case False
  then show ?thesis using loadtxt_rows_other_length [OF False, of np] by auto
qed

lemma np_example_divide:
  "true_divide np_example x (float_of_int np_example 1000) = x / 1000"
  by (simp add: np_example_def)

lemma rr_example_files:
  "loadtxt_data np_example [''# RR (ms)'', ''1000'', [], ''500'', ''250'']
     = [[''1000''], [''500''], [''250'']]"
  "map_err (map_err (loadtxt_float np_example)) [[''1000''], [''500''], [''250'']]
     = Inr [[1000], [500], [250]]"
  "loadtxt_data np_example [''1000 500'', ''250 2000'']
     = [[''1000'', ''500''], [''250'', ''2000'']]"
  "map_err (map_err (loadtxt_float np_example)) [[''1000'', ''500''], [''250'', ''2000'']]
     = Inr [[1000, 500], [250, 2000]]"
  "loadtxt_data np_example [''800 810'', ''805''] = [[''800'', ''810''], [''805'']]"
  "map_err (map_err (loadtxt_float np_example)) [[''800'', ''810''], [''805'']]
     = Inr [[800, 810], [805]]"
  by code_simp+

text \<open>
  C8, as the code has it. For a path with the suffix \<^verbatim>\<open>.csv\<close>, \<^verbatim>\<open>load_rr\<close>
  returns an array exactly when the lines of the file that hold data all have
  the same number of fields and every field converts to a float. The array then
  holds the values of the file, each divided by 1000, in the order of the file;
  its shape is the number of rows by the number of columns, without the axes of
  length 1. When two data lines differ in their number of fields, the call
  raises an error instead. The division is the one of the floating-point type.
\<close>

theorem load_rr_csv:
  assumes "lower (path_suffix path) = ''.csv''"
    and rows: "loadtxt_data np file = rows"
  shows "(load_rr np path messages file = Inr rr_raw \<longleftrightarrow>
            list_all (\<lambda>row. length row = length (hd rows)) rows
            \<and> (\<exists>xss. map_err (map_err (loadtxt_float np)) rows = Inr xss
                 \<and> rr_raw = NDArray
                      (if rows = [] then [0] else squeeze [length rows, length (hd rows)])
                      (map (\<lambda>x. VFloat (true_divide np x (float_of_int np 1000)))
                         (concat xss))))
     \<and> (\<not> list_all (\<lambda>row. length row = length (hd rows)) rows
          \<longrightarrow> isl (load_rr np path messages file))"
proof (cases "rows = []")
  case True
  then show ?thesis
    using assms by (auto simp: load_rr_def load_rr_from_csv_def loadtxt_def bind_def)
next
  case False
  have ok: "loadtxt_rows np (length (hd rows)) rows = Inr xss \<longleftrightarrow>
      list_all (\<lambda>row. length row = length (hd rows)) rows
      \<and> map_err (map_err (loadtxt_float np)) rows = Inr xss" for xss
    by (rule loadtxt_rows_eq_Inr)
  have rr: "load_rr np path messages file =
      bind (loadtxt_rows np (length (hd rows)) rows) (\<lambda>xss.
        Inr (NDArray (squeeze [length rows, length (hd rows)])
               (map (\<lambda>x. VFloat (true_divide np x (float_of_int np 1000))) (concat xss))))"
    using assms False
    by (cases "loadtxt_rows np (length (hd rows)) rows")
      (simp_all add: load_rr_def load_rr_from_csv_def loadtxt_def bind_def)
  show ?thesis
  proof (cases "loadtxt_rows np (length (hd rows)) rows")
    case (Inl e)
    then show ?thesis using ok rr False by (auto simp: bind_def)
  next
    case (Inr xss)
    then show ?thesis using ok [of xss] rr False by (auto simp: bind_def)
  qed
qed

theorem load_rr_csv_witness:
  "load_rr np_example ''data/rr.csv'' [] [''# RR (ms)'', ''1000'', [], ''500'', ''250'']
     = Inr (NDArray [3] [VFloat 1, VFloat (1 / 2), VFloat (1 / 4)])
   \<and> load_rr np_example ''data/rr.csv'' [] [''1000 500'', ''250 2000'']
     = Inr (NDArray [2, 2] [VFloat 1, VFloat (1 / 2), VFloat (1 / 4), VFloat 2])
   \<and> isl (load_rr np_example ''data/rr.csv'' [] [''800 810'', ''805''])"
proof -
  have "load_rr np_example ''data/rr.csv'' [] [''# RR (ms)'', ''1000'', [], ''500'', ''250'']
      = Inr (NDArray [3] [VFloat 1, VFloat (1 / 2), VFloat (1 / 4)])"
    using load_rr_csv [OF example_paths(5) rr_example_files(1), of "[]"
        "NDArray [3] [VFloat 1, VFloat (1 / 2), VFloat (1 / 4)]"]
    by (simp add: rr_example_files(2) np_example_divide squeeze_def del: map_err.simps)
  moreover have "load_rr np_example ''data/rr.csv'' [] [''1000 500'', ''250 2000'']
      = Inr (NDArray [2, 2] [VFloat 1, VFloat (1 / 2), VFloat (1 / 4), VFloat 2])"
    using load_rr_csv [OF example_paths(5) rr_example_files(3), of "[]"
        "NDArray [2, 2] [VFloat 1, VFloat (1 / 2), VFloat (1 / 4), VFloat 2]"]
    by (simp add: rr_example_files(4) np_example_divide squeeze_def del: map_err.simps)
  moreover have "isl (load_rr np_example ''data/rr.csv'' [] [''800 810'', ''805''])"
    using load_rr_csv [OF example_paths(5) rr_example_files(5), of "[]" "NDArray [] []"]
    by simp
  ultimately show ?thesis by simp
qed

text \<open>
  C8 as stated fails: a file whose first line holds two values and whose second
  line holds one is a sequence of values separated by whitespace and line
  ends, each of which converts, and \<^verbatim>\<open>load_rr\<close> returns no array for it.
\<close>

theorem load_rr_csv_ragged_rows:
  "loadtxt_data np_example [''800 810'', ''805''] = [[''800'', ''810''], [''805'']]
   \<and> map_err (map_err (loadtxt_float np_example)) [[''800'', ''810''], [''805'']]
       = Inr [[800, 810], [805]]
   \<and> load_rr np_example ''data/rr.csv'' [] [''800 810'', ''805'']
       = Inl (ValueError ''the number of columns changed'')"
  by code_simp

lemma hrm_example_sections:
  "get_lines_until_blank
     [''Date,01/02/23'', ''Start,10:00:00'', ''Duration,01:30:00'', [],
      ''{History}'', ''SEC,HR_BPM'', ''0,60'', ''1,61'', []]
     = ([''Date,01/02/23'', ''Start,10:00:00'', ''Duration,01:30:00''],
        [''{History}'', ''SEC,HR_BPM'', ''0,60'', ''1,61'', []])"
  "strip ''{History}'' = ''{History}''"
  "get_lines_until_blank [''SEC,HR_BPM'', ''0,60'', ''1,61'', []]
     = ([''SEC,HR_BPM'', ''0,60'', ''1,61''], [])"
  "np_array_float np_example [[''0'', ''60''], [''1'', ''61'']] = Inr [[0, 60], [1, 61]]"
  by code_simp+

lemma hrm_example_recordings:
  "\<exists>recordings. hrmonitorapp_parse_recordings np_example [''SEC,HR_BPM'', ''0,60'', ''1,61'']
     = Inr recordings"
  by (simp add: hrmonitorapp_parse_recordings_def item_def hrm_example_sections(4) bind_def)

lemma load_hrmonitorapp_example:
  "\<not> isl (load_hrmonitorapp np_example (hrm_statistics @ hrm_history))"
proof -
  from hrm_example_recordings obtain recordings where
    r: "hrmonitorapp_parse_recordings np_example [''SEC,HR_BPM'', ''0,60'', ''1,61'']
     = Inr recordings" ..
  show ?thesis
    by (simp add: load_hrmonitorapp_def Let_def hrm_statistics_def hrm_history_def
        hrm_statistics_section(1) hrm_example_sections parse_stats_example r bind_def
        del: get_lines_until_blank.simps)
qed

text \<open>
  C1 does not hold of the code for FIT files. The mapping \<^verbatim>\<open>load\<close> returns for
  an HRMonitorApp file has exactly the keys of \<^verbatim>\<open>ACTIVITY_SCHEMA\<close>; the mapping
  it returns for a FIT file has these keys without \<^verbatim>\<open>file_hash\<close> and \<^verbatim>\<open>workout\<close>,
  which the dictionary built at the end of \<^verbatim>\<open>load_fit\<close> leaves out.
\<close>

theorem load_metadata_keys:
  assumes "load np path messages file = Inr (meta, recordings)"
  shows "dom meta =
     (if lower (path_suffix path) = ''.fit''
      then dom (ACTIVITY_SCHEMA :: 'f py_value dict) - {''file_hash'', ''workout''}
      else dom (ACTIVITY_SCHEMA :: 'f py_value dict))"
proof (cases "lower (path_suffix path) = ''.fit''")
  case True
  then have "load_fit np messages = Inr (meta, recordings)"
    using assms by (simp add: load_def)
  then show ?thesis
    using True by (auto simp: load_fit_keys ACTIVITY_SCHEMA_keys)
next
  case False
  then have "load_hrmonitorapp np file = Inr (meta, recordings)"
    using assms by (simp add: load_def split: if_splits)
  then show ?thesis
    using False by (simp add: load_hrmonitorapp_keys ACTIVITY_SCHEMA_keys)
qed

theorem load_metadata_keys_witness:
  "\<not> isl (load np_example ''activity.fit'' fit_activity [])
   \<and> dom (fst (projr (load np_example ''activity.fit'' fit_activity [])))
       = dom (ACTIVITY_SCHEMA :: rat py_value dict) - {''file_hash'', ''workout''}
   \<and> \<not> isl (load np_example ''data/user_hr_data_7.CSV'' [] (hrm_statistics @ hrm_history))
   \<and> dom (fst (projr (load np_example ''data/user_hr_data_7.CSV'' []
         (hrm_statistics @ hrm_history))))
       = dom (ACTIVITY_SCHEMA :: rat py_value dict)"
proof -
  let ?a = "load np_example ''activity.fit'' fit_activity []"
  let ?b = "load np_example ''data/user_hr_data_7.CSV'' [] (hrm_statistics @ hrm_history)"
  have a: "\<not> isl ?a"
    by (simp add: load_def example_paths load_fit_example)
  have b: "\<not> isl ?b"
    using load_hrmonitorapp_example
    by (simp add: load_def example_paths is_hrmonitorapp_activity_def startswith_def)
  have a': "?a = Inr (fst (projr ?a), snd (projr ?a))" using a by (cases ?a) simp_all
  have b': "?b = Inr (fst (projr ?b), snd (projr ?b))" using b by (cases ?b) simp_all
  show ?thesis
    using a b load_metadata_keys [OF a'] load_metadata_keys [OF b']
    by (simp add: example_paths)
qed

end
